theory Spec2Isabelle
  imports Main "HOL-Library.Char_ord" "HOL-Library.List_Lexorder" "HOL-Library.AList"
  "HOL-Library.Product_Lexorder"
begin

section \<open>Strings and the helpers of \<^verbatim>\<open>src/utils/validators.py\<close>\<close>

text \<open>
  A Python \<^verbatim>\<open>str\<close> is modelled as a \<^typ>\<open>string\<close>: a list of characters, each a code point
  in the range 0..255. Comparison of strings is lexicographic by code point, as in Python.
\<close>

definition last_segment :: "char \<Rightarrow> string \<Rightarrow> string" where
  \<comment> \<open>\<^verbatim>\<open>s.split(sep)[-1]\<close>: the part of \<open>s\<close> after the last occurrence of \<open>sep\<close>.\<close>
  "last_segment sep s = rev (takeWhile (\<lambda>c. c \<noteq> sep) (rev s))"

definition before_last :: "char \<Rightarrow> string \<Rightarrow> string" where
  \<comment> \<open>\<^verbatim>\<open>s.rsplit(sep, 1)[0]\<close> when \<open>sep\<close> occurs in \<open>s\<close>: the part before the last \<open>sep\<close>.\<close>
  "before_last sep s = rev (drop 1 (dropWhile (\<lambda>c. c \<noteq> sep) (rev s)))"

definition py_prefix :: "int \<Rightarrow> string \<Rightarrow> string" where
  \<comment> \<open>The slice \<^verbatim>\<open>s[:n]\<close>; a negative \<open>n\<close> counts from the end.\<close>
  "py_prefix n s =
     (if 0 \<le> n then take (nat n) s else take (length s - nat (- n)) s)"

definition safe_char :: "char \<Rightarrow> bool" where
  \<comment> \<open>Membership in the character class \<^verbatim>\<open>[a-zA-Z0-9._-]\<close>.\<close>
  "safe_char c =
     (let n = (of_char c :: nat)
      in (97 \<le> n \<and> n \<le> 122) \<or> (65 \<le> n \<and> n \<le> 90) \<or> (48 \<le> n \<and> n \<le> 57)
         \<or> c = CHR ''.'' \<or> c = CHR ''_'' \<or> c = CHR ''-'')"

definition sanitize_filename :: "string \<Rightarrow> string" where
  "sanitize_filename filename0 =
     (let filename1 = last_segment (CHR 0x5C) (last_segment CHR ''/'' filename0);
          filename2 = map (\<lambda>c. if safe_char c then c else CHR ''_'') filename1
      in if length filename2 > 255 then
           (let (name, ext) =
                  (if CHR ''.'' \<in> set filename2
                   then (before_last CHR ''.'' filename2, last_segment CHR ''.'' filename2)
                   else (filename2, ''''));
                max_name_len = 255 - int (length ext) - 1
            in if ext \<noteq> [] then py_prefix max_name_len name @ ''.'' @ ext
               else py_prefix 255 name)
         else filename2)"

definition validate_content_type :: "string \<Rightarrow> bool" where
  "validate_content_type content_type \<longleftrightarrow>
     content_type \<in> set [''image/jpeg'', ''image/png'', ''image/gif'', ''image/webp'', ''image/bmp'']"

section \<open>Exceptions\<close>

text \<open>
  The exceptions the handlers can meet. A \<open>ClientError\<close> is botocore's: it carries the error
  code, the operation and the backend's message. Every other exception carries its class name
  and its text.
\<close>

datatype exn =
    ClientError string string string
  | PyException string string

fun str_exn :: "exn \<Rightarrow> string" where
  \<comment> \<open>\<^verbatim>\<open>str(e)\<close>\<close>
  "str_exn (ClientError code operation msg) =
     ''An error occurred ('' @ code @ '') when calling the '' @ operation @ '' operation: '' @ msg"
| "str_exn (PyException cls text) = text"

section \<open>Models: \<^verbatim>\<open>src/models/image.py\<close> and \<^verbatim>\<open>src/models/requests.py\<close>\<close>

datatype ImageStatus = PENDING | COMPLETED | FAILED

fun status_value :: "ImageStatus \<Rightarrow> string" where
  "status_value PENDING = ''pending''"
| "status_value COMPLETED = ''completed''"
| "status_value FAILED = ''failed''"

definition status_of_value :: "string \<Rightarrow> ImageStatus option" where
  "status_of_value s =
     (if s = ''pending'' then Some PENDING
      else if s = ''completed'' then Some COMPLETED
      else if s = ''failed'' then Some FAILED
      else None)"

record ImageMetadata =
  image_id :: string
  user_id :: string
  filename :: string
  content_type :: string
  file_size :: int
  upload_timestamp :: string
  tags :: "string list option"
  description :: "string option"
  status :: ImageStatus
  s3_key :: string

text \<open>
  pydantic's \<open>ValidationError\<close> (the 1.x API, which the models use) holds one entry for each
  field in error: the field, the message and the type of the error with its context. Its text
  is
  \<^verbatim>\<open>f'{n} validation error{s} for {model}\n'\<close> followed by the entries, each as
  \<^verbatim>\<open>f'{loc}\n  {msg} (type={type})'\<close>, joined by line feeds.
\<close>

type_synonym field_error = "string \<times> string \<times> string"

function str_nat :: "nat \<Rightarrow> string" where
  \<comment> \<open>\<^verbatim>\<open>str(n)\<close> for a number that is not negative.\<close>
  "str_nat n = (if n < 10 then [char_of (48 + n)] else str_nat (n div 10) @ [char_of (48 + n mod 10)])"
  by pat_completeness auto

termination str_nat
  by (relation "measure id") auto

declare str_nat.simps [simp del]

definition display_error :: "field_error \<Rightarrow> string" where
  "display_error err =
     (case err of (loc, msg, ty) \<Rightarrow> loc @ [CHR 0x0A] @ ''  '' @ msg @ '' (type='' @ ty @ '')'')"

fun join_lines :: "string list \<Rightarrow> string" where
  \<comment> \<open>\<^verbatim>\<open>'\n'.join(lines)\<close>\<close>
  "join_lines [] = []"
| "join_lines [l] = l"
| "join_lines (l # m # ls) = l @ [CHR 0x0A] @ join_lines (m # ls)"

definition validation_error :: "string \<Rightarrow> field_error list \<Rightarrow> exn" where
  "validation_error model errors =
     PyException ''ValidationError''
       (str_nat (length errors) @ '' validation error'' @ (if length errors = 1 then [] else ''s'')
        @ '' for '' @ model @ [CHR 0x0A] @ join_lines (map display_error errors))"

definition content_type_refused :: field_error where
  \<comment> \<open>The \<open>ValueError\<close> of the validator of \<open>content_type\<close>.\<close>
  "content_type_refused =
     (''content_type'',
      ''Content type must be one of ['image/jpeg', 'image/png', 'image/gif', 'image/webp', 'image/bmp']'',
      ''value_error'')"

definition not_greater_than_0 :: "string \<Rightarrow> field_error" where
  \<comment> \<open>The bound \<^verbatim>\<open>gt=0\<close> of a field.\<close>
  "not_greater_than_0 name =
     (name, ''ensure this value is greater than 0'', ''value_error.number.not_gt; limit_value=0'')"

definition new_ImageMetadata :: "ImageMetadata \<Rightarrow> exn + ImageMetadata" where
  \<comment> \<open>The constructor \<^verbatim>\<open>ImageMetadata(...)\<close> on arguments of the declared types: the
      \<open>content_type\<close> validator and the bound \<^verbatim>\<open>gt=0\<close> of \<open>file_size\<close>.\<close>
  "new_ImageMetadata m =
     (let errs = (if validate_content_type (content_type m) then [] else [content_type_refused])
               @ (if file_size m > 0 then [] else [not_greater_than_0 ''file_size''])
      in if errs = [] then Inr m else Inl (validation_error ''ImageMetadata'' errs))"

text \<open>
  A request body after \<^verbatim>\<open>json.loads\<close>: each field is present with a value of its declared
  type, or absent (\<open>None\<close>).
\<close>

record upload_body =
  ub_user_id :: "string option"
  ub_filename :: "string option"
  ub_content_type :: "string option"
  ub_file_size :: "int option"
  ub_tags :: "string list option"
  ub_description :: "string option"

record UploadPresignedUrlRequest =
  ur_user_id :: string
  ur_filename :: string
  ur_content_type :: string
  ur_file_size :: int
  ur_tags :: "string list option"
  ur_description :: "string option"

definition required_str :: "string \<Rightarrow> string option \<Rightarrow> string list" where
  \<comment> \<open>A required \<open>str\<close> field with \<^verbatim>\<open>min_length=1\<close>: the errors it reports.\<close>
  "required_str field v =
     (case v of None \<Rightarrow> [field] | Some s \<Rightarrow> if length s \<ge> 1 then [] else [field])"

definition content_type_errors :: "string option \<Rightarrow> string list" where
  \<comment> \<open>The field \<open>content_type\<close>: required, \<^verbatim>\<open>min_length=1\<close>, then the whitelist validator.\<close>
  "content_type_errors v =
     (case v of None \<Rightarrow> [''content_type'']
      | Some s \<Rightarrow> if length s \<ge> 1 \<and> validate_content_type s then [] else [''content_type''])"

definition description_errors :: "string option \<Rightarrow> string list" where
  \<comment> \<open>The optional field \<open>description\<close> with \<^verbatim>\<open>max_length=500\<close>.\<close>
  "description_errors v =
     (case v of None \<Rightarrow> [] | Some s \<Rightarrow> if length s \<le> 500 then [] else [''description''])"

definition upload_file_size_errors :: "int option \<Rightarrow> string list" where
  \<comment> \<open>\<open>file_size\<close> of the upload request: required, \<^verbatim>\<open>gt=0, le=10_485_760\<close>.\<close>
  "upload_file_size_errors v =
     (case v of None \<Rightarrow> [''file_size'']
      | Some n \<Rightarrow> if n > 0 \<and> n \<le> 10485760 then [] else [''file_size''])"

definition new_UploadPresignedUrlRequest :: "upload_body \<Rightarrow> string list + UploadPresignedUrlRequest" where
  \<comment> \<open>\<^verbatim>\<open>UploadPresignedUrlRequest(**body)\<close>: \<open>Inl\<close> is pydantic's \<open>ValidationError\<close> with the
      failing fields (\<^verbatim>\<open>e.errors()\<close>).\<close>
  "new_UploadPresignedUrlRequest b =
     (let errs = required_str ''user_id'' (ub_user_id b)
               @ required_str ''filename'' (ub_filename b)
               @ content_type_errors (ub_content_type b)
               @ upload_file_size_errors (ub_file_size b)
               @ description_errors (ub_description b)
      in if errs = [] then
           Inr \<lparr> ur_user_id = the (ub_user_id b), ur_filename = the (ub_filename b),
                 ur_content_type = the (ub_content_type b), ur_file_size = the (ub_file_size b),
                 ur_tags = ub_tags b, ur_description = ub_description b \<rparr>
         else Inl errs)"

record complete_body =
  cb_image_id :: "string option"
  cb_user_id :: "string option"
  cb_filename :: "string option"
  cb_content_type :: "string option"
  cb_file_size :: "int option"
  cb_tags :: "string list option"
  cb_description :: "string option"

record CompleteUploadRequest =
  cr_image_id :: string
  cr_user_id :: string
  cr_filename :: string
  cr_content_type :: string
  cr_file_size :: int
  cr_tags :: "string list option"
  cr_description :: "string option"

definition complete_file_size_errors :: "int option \<Rightarrow> string list" where
  \<comment> \<open>\<open>file_size\<close> of the complete request: required, \<^verbatim>\<open>gt=0\<close> only.\<close>
  "complete_file_size_errors v =
     (case v of None \<Rightarrow> [''file_size''] | Some n \<Rightarrow> if n > 0 then [] else [''file_size''])"

definition new_CompleteUploadRequest :: "complete_body \<Rightarrow> string list + CompleteUploadRequest" where
  "new_CompleteUploadRequest b =
     (let errs = required_str ''image_id'' (cb_image_id b)
               @ required_str ''user_id'' (cb_user_id b)
               @ required_str ''filename'' (cb_filename b)
               @ content_type_errors (cb_content_type b)
               @ complete_file_size_errors (cb_file_size b)
               @ description_errors (cb_description b)
      in if errs = [] then
           Inr \<lparr> cr_image_id = the (cb_image_id b), cr_user_id = the (cb_user_id b),
                 cr_filename = the (cb_filename b), cr_content_type = the (cb_content_type b),
                 cr_file_size = the (cb_file_size b), cr_tags = cb_tags b,
                 cr_description = cb_description b \<rparr>
         else Inl errs)"

section \<open>Responses: \<^verbatim>\<open>src/models/responses.py\<close> and \<^verbatim>\<open>src/utils/api_response.py\<close>\<close>

text \<open>
  The body of a response is kept as the value that \<^verbatim>\<open>create_response\<close> hands to
  \<^verbatim>\<open>json.dumps\<close>: one constructor for each response model, and one for the error dictionary
  \<^verbatim>\<open>{error, message, details?}\<close>.
\<close>

datatype body =
    ErrorBody string string "string list option"
  | PresignedUrlResponse string string "(string \<times> string) list" int string
  | PresignedDownloadUrlResponse string string int string string
  | CompleteUploadResponse string string string
  | ListImagesResponse "ImageMetadata list" nat "string option" bool
  | DeleteImageResponse string string string

record response =
  statusCode :: nat
  headers :: "(string \<times> string) list"
  body :: body

definition create_response :: "nat \<Rightarrow> body \<Rightarrow> response" where
  "create_response status_code b =
     \<lparr> statusCode = status_code,
       headers = [(''Content-Type'', ''application/json''),
                  (''Access-Control-Allow-Origin'', ''*''),
                  (''Access-Control-Allow-Headers'', ''Content-Type,X-Amz-Date,Authorization,X-Api-Key''),
                  (''Access-Control-Allow-Methods'', ''GET,POST,PUT,DELETE,OPTIONS'')],
       body = b \<rparr>"

definition success_response :: "body \<Rightarrow> nat \<Rightarrow> response" where
  "success_response data status_code = create_response status_code data"

definition error_response :: "string \<Rightarrow> string \<Rightarrow> nat \<Rightarrow> string list option \<Rightarrow> response" where
  \<comment> \<open>\<open>details\<close> is the dictionary \<^verbatim>\<open>{"errors": [...]}\<close> when given; it has one key, so it is
      truthy and is always put into the body.\<close>
  "error_response err message status_code details =
     create_response status_code (ErrorBody err message details)"

definition validation_error_response :: "string \<Rightarrow> string list option \<Rightarrow> response" where
  "validation_error_response message details = error_response ''ValidationError'' message 400 details"

definition not_found_response :: "string \<Rightarrow> response" where
  "not_found_response message = error_response ''NotFound'' message 404 None"

definition internal_error_response :: "string \<Rightarrow> response" where
  "internal_error_response message = error_response ''InternalError'' message 500 None"

definition unauthorized_response :: "string \<Rightarrow> response" where
  "unauthorized_response message = error_response ''Unauthorized'' message 401 None"

section \<open>The two backends\<close>

text \<open>
  The table and the object store are external services. Their state is modelled as two
  dictionaries: the table maps a primary key \<open>image_id\<close> to an item (a dictionary of
  attributes), the bucket maps an object key to what \<^verbatim>\<open>head_object\<close> reports of the object.
  Whether a call fails is given by the environment: for each backend operation an optional
  exception that the operation raises instead of doing its work.
\<close>

datatype attr = S string | N int | SL "string list" | NULL

type_synonym item = "(string \<times> attr) list"

record s3_object =
  ContentType :: string
  ContentLength :: int

record backend =
  table :: "(string \<times> item) list"
  objects :: "(string \<times> s3_object) list"

record env =
  head_object_fault :: "exn option"
  delete_object_fault :: "exn option"
  presigned_post_fault :: "exn option"
  presigned_url_fault :: "exn option"
  put_item_fault :: "exn option"
  get_item_fault :: "exn option"
  delete_item_fault :: "exn option"
  update_item_fault :: "exn option"
  query_fault :: "exn option"
  scan_fault :: "exn option"
  fromisoformat :: "string \<Rightarrow> bool"
  sign_post :: "string \<Rightarrow> string \<Rightarrow> int \<Rightarrow> int \<Rightarrow> string \<times> (string \<times> string) list"
  sign_get :: "string \<Rightarrow> string option \<Rightarrow> int \<Rightarrow> string"
  S3_PRESIGNED_URL_EXPIRY_UPLOAD :: int
  S3_PRESIGNED_URL_EXPIRY_DOWNLOAD :: int

subsection \<open>\<^verbatim>\<open>src/services/s3_service.py\<close>\<close>

definition head_object :: "env \<Rightarrow> backend \<Rightarrow> string \<Rightarrow> exn + s3_object" where
  \<comment> \<open>The client's \<^verbatim>\<open>head_object\<close>: a missing object is a \<open>ClientError\<close> with code 404.\<close>
  "head_object e w key =
     (case head_object_fault e of
        Some x \<Rightarrow> Inl x
      | None \<Rightarrow> (case map_of (objects w) key of
                   None \<Rightarrow> Inl (ClientError ''404'' ''HeadObject'' ''Not Found'')
                 | Some obj \<Rightarrow> Inr obj))"

definition generate_presigned_post ::
  "env \<Rightarrow> string \<Rightarrow> string \<Rightarrow> int \<Rightarrow> int \<Rightarrow> exn + string \<times> (string \<times> string) list" where
  "generate_presigned_post e key ctype fsize expires_in =
     (case presigned_post_fault e of
        Some x \<Rightarrow> Inl x
      | None \<Rightarrow> Inr (sign_post e key ctype fsize expires_in))"


definition check_object_exists :: "env \<Rightarrow> backend \<Rightarrow> string \<Rightarrow> exn + bool" where
  "check_object_exists e w key =
     (case head_object e w key of
        Inr obj \<Rightarrow> Inr True
      | Inl (ClientError code operation msg) \<Rightarrow>
          if code = ''404'' then Inr False else Inl (ClientError code operation msg)
      | Inl x \<Rightarrow> Inl x)"

definition delete_object :: "env \<Rightarrow> backend \<Rightarrow> string \<Rightarrow> (exn + bool) \<times> backend" where
  "delete_object e w key =
     (case delete_object_fault e of
        Some x \<Rightarrow> (Inl x, w)
      | None \<Rightarrow> (Inr True, w\<lparr>objects := AList.delete key (objects w)\<rparr>))"

definition get_object_metadata :: "env \<Rightarrow> backend \<Rightarrow> string \<Rightarrow> exn + s3_object option" where
  "get_object_metadata e w key =
     (case head_object e w key of
        Inr obj \<Rightarrow> Inr (Some obj)
      | Inl (ClientError code operation msg) \<Rightarrow>
          if code = ''404'' then Inr None else Inl (ClientError code operation msg)
      | Inl x \<Rightarrow> Inl x)"

subsection \<open>\<^verbatim>\<open>src/services/dynamodb_service.py\<close>: access by primary key\<close>

definition item_of_metadata :: "ImageMetadata \<Rightarrow> string \<Rightarrow> item" where
  \<comment> \<open>The item that \<^verbatim>\<open>put_item\<close> writes: \<^verbatim>\<open>metadata.dict()\<close> with the status as its string
      value, and the two audit timestamps.\<close>
  "item_of_metadata m now =
     [(''image_id'', S (image_id m)),
      (''user_id'', S (user_id m)),
      (''filename'', S (filename m)),
      (''content_type'', S (content_type m)),
      (''file_size'', N (file_size m)),
      (''upload_timestamp'', S (upload_timestamp m)),
      (''tags'', (case tags m of None \<Rightarrow> NULL | Some ts \<Rightarrow> SL ts)),
      (''description'', (case description m of None \<Rightarrow> NULL | Some d \<Rightarrow> S d)),
      (''status'', S (status_value (status m))),
      (''s3_key'', S (s3_key m)),
      (''created_at'', S now),
      (''updated_at'', S now)]"

definition item_str :: "item \<Rightarrow> string \<Rightarrow> string option" where
  \<comment> \<open>A required string attribute of an item.\<close>
  "item_str it name = (case map_of it name of Some (S s) \<Rightarrow> Some s | _ \<Rightarrow> None)"

definition item_content_type :: "item \<Rightarrow> string option" where
  "item_content_type it =
     (case item_str it ''content_type'' of
        Some s \<Rightarrow> if validate_content_type s then Some s else None
      | None \<Rightarrow> None)"

definition item_file_size :: "item \<Rightarrow> int option" where
  "item_file_size it =
     (case map_of it ''file_size'' of Some (N n) \<Rightarrow> if n > 0 then Some n else None | _ \<Rightarrow> None)"

definition item_tags :: "item \<Rightarrow> string list option option" where
  \<comment> \<open>An optional list of strings: the outer \<open>None\<close> is a value of the wrong type.\<close>
  "item_tags it =
     (case map_of it ''tags'' of
        None \<Rightarrow> Some None | Some NULL \<Rightarrow> Some None | Some (SL ts) \<Rightarrow> Some (Some ts)
      | _ \<Rightarrow> None)"

definition item_description :: "item \<Rightarrow> string option option" where
  "item_description it =
     (case map_of it ''description'' of
        None \<Rightarrow> Some None | Some NULL \<Rightarrow> Some None | Some (S d) \<Rightarrow> Some (Some d)
      | _ \<Rightarrow> None)"

definition item_status :: "item \<Rightarrow> ImageStatus option" where
  \<comment> \<open>The status defaults to \<open>COMPLETED\<close> when the attribute is missing.\<close>
  "item_status it =
     (case map_of it ''status'' of
        None \<Rightarrow> Some COMPLETED | Some (S s) \<Rightarrow> status_of_value s | _ \<Rightarrow> None)"

definition field_required :: "string \<Rightarrow> field_error" where
  "field_required name = (name, ''field required'', ''value_error.missing'')"

definition none_not_allowed :: "string \<Rightarrow> field_error" where
  "none_not_allowed name = (name, ''none is not an allowed value'', ''type_error.none.not_allowed'')"

definition str_type_expected :: "string \<Rightarrow> field_error" where
  "str_type_expected name = (name, ''str type expected'', ''type_error.str'')"

definition not_an_integer :: "string \<Rightarrow> field_error" where
  "not_an_integer name = (name, ''value is not a valid integer'', ''type_error.integer'')"

definition not_a_list :: "string \<Rightarrow> field_error" where
  "not_a_list name = (name, ''value is not a valid list'', ''type_error.list'')"

definition not_a_status :: field_error where
  "not_a_status =
     (''status'',
      ''value is not a valid enumeration member; permitted: 'pending', 'completed', 'failed'' @ [CHR 0x27],
      ''type_error.enum; enum_values=[<ImageStatus.PENDING: 'pending'>, <ImageStatus.COMPLETED: 'completed'>, <ImageStatus.FAILED: 'failed'>]'')"

definition refusal :: "string \<Rightarrow> field_error \<Rightarrow> attr option \<Rightarrow> field_error" where
  \<comment> \<open>Why a field has no value: the attribute is absent, it is null, or it is \<open>otherwise\<close>
      not a value of the field.\<close>
  "refusal name otherwise raw =
     (case raw of
        None \<Rightarrow> field_required name
      | Some NULL \<Rightarrow> none_not_allowed name
      | Some a \<Rightarrow> otherwise)"

definition missing :: "field_error \<Rightarrow> 'a option \<Rightarrow> field_error list" where
  "missing err v = (case v of None \<Rightarrow> [err] | Some x \<Rightarrow> [])"

definition str_missing :: "item \<Rightarrow> string \<Rightarrow> field_error list" where
  \<comment> \<open>The entry of a required string field without a value.\<close>
  "str_missing it name =
     missing (refusal name (str_type_expected name) (map_of it name)) (item_str it name)"

definition ImageMetadata_of_item :: "item \<Rightarrow> exn + ImageMetadata" where
  \<comment> \<open>\<^verbatim>\<open>ImageMetadata(**item)\<close> on an item read from the table. Attributes are taken at the
      types at which \<^verbatim>\<open>put_item\<close> and \<^verbatim>\<open>update_status\<close> write them, and an attribute of
      another type is refused with the type error of the field (the conversions that pydantic
      tries between numbers and strings are not modelled); the attributes \<open>created_at\<close> and
      \<open>updated_at\<close> are not fields of the model and are ignored.\<close>
  "ImageMetadata_of_item it =
     (let errs = str_missing it ''image_id''
               @ str_missing it ''user_id''
               @ str_missing it ''filename''
               @ missing (refusal ''content_type''
                            (case map_of it ''content_type'' of
                               Some (S s) \<Rightarrow> content_type_refused
                             | _ \<Rightarrow> str_type_expected ''content_type'')
                            (map_of it ''content_type''))
                   (item_content_type it)
               @ missing (refusal ''file_size''
                            (case map_of it ''file_size'' of
                               Some (N n) \<Rightarrow> not_greater_than_0 ''file_size''
                             | _ \<Rightarrow> not_an_integer ''file_size'')
                            (map_of it ''file_size''))
                   (item_file_size it)
               @ str_missing it ''upload_timestamp''
               @ missing (not_a_list ''tags'') (item_tags it)
               @ missing (str_type_expected ''description'') (item_description it)
               @ missing (refusal ''status'' not_a_status (map_of it ''status'')) (item_status it)
               @ str_missing it ''s3_key''
      in if errs = [] then
           Inr \<lparr> image_id = the (item_str it ''image_id''),
                 user_id = the (item_str it ''user_id''),
                 filename = the (item_str it ''filename''),
                 content_type = the (item_content_type it),
                 file_size = the (item_file_size it),
                 upload_timestamp = the (item_str it ''upload_timestamp''),
                 tags = the (item_tags it),
                 description = the (item_description it),
                 status = the (item_status it),
                 s3_key = the (item_str it ''s3_key'') \<rparr>
         else Inl (validation_error ''ImageMetadata'' errs))"

definition put_item :: "env \<Rightarrow> string \<Rightarrow> backend \<Rightarrow> ImageMetadata \<Rightarrow> (exn + bool) \<times> backend" where
  \<comment> \<open>\<open>now\<close> is the reading of \<^verbatim>\<open>datetime.utcnow().isoformat()\<close>. The table's \<^verbatim>\<open>put_item\<close>
      inserts the item or replaces the one with the same primary key.\<close>
  "put_item e now w metadata =
     (case put_item_fault e of
        Some x \<Rightarrow> (Inl x, w)
      | None \<Rightarrow>
          (Inr True,
           w\<lparr>table := AList.update (image_id metadata) (item_of_metadata metadata now) (table w)\<rparr>))"

definition get_item :: "env \<Rightarrow> backend \<Rightarrow> string \<Rightarrow> exn + ImageMetadata option" where
  "get_item e w iid =
     (case get_item_fault e of
        Some x \<Rightarrow> Inl x
      | None \<Rightarrow>
          (case map_of (table w) iid of
             None \<Rightarrow> Inr None
           | Some it \<Rightarrow>
               (case ImageMetadata_of_item it of Inl x \<Rightarrow> Inl x | Inr m \<Rightarrow> Inr (Some m))))"

definition delete_item :: "env \<Rightarrow> backend \<Rightarrow> string \<Rightarrow> (exn + bool) \<times> backend" where
  "delete_item e w iid =
     (case delete_item_fault e of
        Some x \<Rightarrow> (Inl x, w)
      | None \<Rightarrow> (Inr True, w\<lparr>table := AList.delete iid (table w)\<rparr>))"

definition table_update_item :: "string \<Rightarrow> (string \<times> attr) list \<Rightarrow> (string \<times> item) list \<Rightarrow> (string \<times> item) list" where
  \<comment> \<open>The table's \<^verbatim>\<open>update_item\<close> with a \<open>SET\<close> expression and no condition expression: it
      edits the attributes of the item with that key, and adds a new item holding the key and
      the assigned attributes when the table has none.\<close>
  "table_update_item iid assignments t =
     (case map_of t iid of
        None \<Rightarrow> AList.update iid ((''image_id'', S iid) # assignments) t
      | Some it \<Rightarrow> AList.update iid (fold (\<lambda>(k, v). AList.update k v) assignments it) t)"

definition update_status :: "env \<Rightarrow> string \<Rightarrow> backend \<Rightarrow> string \<Rightarrow> string \<Rightarrow> (exn + bool) \<times> backend" where
  "update_status e now w iid st =
     (case update_item_fault e of
        Some x \<Rightarrow> (Inl x, w)
      | None \<Rightarrow>
          (Inr True,
           w\<lparr>table := table_update_item iid [(''status'', S st), (''updated_at'', S now)] (table w)\<rparr>))"

section \<open>The handlers\<close>

text \<open>
  A handler takes the environment, the readings of the clock and of the identifier generator
  that it makes, the parts of the event that it reads, and the state of the backends; it returns
  the response and the new state. A body is given as the result of
  \<^verbatim>\<open>json.loads(event.get('body', '{}'))\<close>: the exception raised, or the parsed dictionary.
  Every branch \<open>Inl x\<close> below is the handler's outermost \<^verbatim>\<open>except Exception as e\<close>.
\<close>

subsection \<open>\<^verbatim>\<open>src/lambda_handlers/upload_presigned_url.py\<close>\<close>

definition upload_s3_key :: "UploadPresignedUrlRequest \<Rightarrow> string \<Rightarrow> string" where
  \<comment> \<open>Lines 63 to 66: the key under which the credential lets the client write.\<close>
  "upload_s3_key request iid =
     (let safe_filename = sanitize_filename (ur_filename request)
      in ''images/'' @ ur_user_id request @ ''/'' @ iid @ ''_'' @ safe_filename)"

definition upload_failed :: "exn \<Rightarrow> response" where
  "upload_failed x = internal_error_response (''Failed to generate upload URL: '' @ str_exn x)"

definition upload_presigned_url_handler ::
  "env \<Rightarrow> string \<Rightarrow> exn + upload_body \<Rightarrow> backend \<Rightarrow> response \<times> backend" where
  \<comment> \<open>\<open>uuid4\<close> is the value of \<^verbatim>\<open>str(uuid.uuid4())\<close>.\<close>
  "upload_presigned_url_handler e uuid4 event_body w =
     (case event_body of
        Inl x \<Rightarrow> (upload_failed x, w)
      | Inr b \<Rightarrow>
          (case new_UploadPresignedUrlRequest b of
             Inl errs \<Rightarrow> (validation_error_response ''Invalid request data'' (Some errs), w)
           | Inr request \<Rightarrow>
               (let key = upload_s3_key request uuid4
                in case generate_presigned_post e key (ur_content_type request)
                          (ur_file_size request) (S3_PRESIGNED_URL_EXPIRY_UPLOAD e) of
                     Inl x \<Rightarrow> (upload_failed x, w)
                   | Inr (url, flds) \<Rightarrow>
                       (success_response
                          (PresignedUrlResponse uuid4 url flds (S3_PRESIGNED_URL_EXPIRY_UPLOAD e) key)
                          200, w))))"

subsection \<open>\<^verbatim>\<open>src/lambda_handlers/complete_upload.py\<close>\<close>

definition complete_s3_key :: "CompleteUploadRequest \<Rightarrow> string" where
  \<comment> \<open>Line 69: the key at which the object is looked for.\<close>
  "complete_s3_key request =
     ''images/'' @ cr_user_id request @ ''/'' @ cr_image_id request @ ''_'' @ cr_filename request"

definition complete_failed :: "exn \<Rightarrow> response" where
  "complete_failed x = internal_error_response (''Failed to complete upload: '' @ str_exn x)"

definition complete_upload_handler ::
  "env \<Rightarrow> string \<Rightarrow> string \<Rightarrow> exn + complete_body \<Rightarrow> backend \<Rightarrow> response \<times> backend" where
  \<comment> \<open>\<open>ts\<close> is the handler's reading of the clock (the upload timestamp), \<open>now\<close> the later one
      of \<^verbatim>\<open>put_item\<close>.\<close>
  "complete_upload_handler e ts now event_body w =
     (case event_body of
        Inl x \<Rightarrow> (complete_failed x, w)
      | Inr b \<Rightarrow>
          (case new_CompleteUploadRequest b of
             Inl errs \<Rightarrow> (validation_error_response ''Invalid request data'' (Some errs), w)
           | Inr request \<Rightarrow>
               (let key = complete_s3_key request
                in case check_object_exists e w key of
                     Inl x \<Rightarrow> (complete_failed x, w)
                   | Inr False \<Rightarrow>
                       (not_found_response ''Image not uploaded to S3. Please upload the file first.'', w)
                   | Inr True \<Rightarrow>
                       (case get_object_metadata e w key of
                          Inl x \<Rightarrow> (complete_failed x, w)
                        | Inr s3_metadata \<Rightarrow>
                            (let ctype = (case s3_metadata of
                                            Some obj \<Rightarrow> ContentType obj
                                          | None \<Rightarrow> cr_content_type request);
                                 fsize = (case s3_metadata of
                                            Some obj \<Rightarrow> ContentLength obj
                                          | None \<Rightarrow> cr_file_size request)
                             in case new_ImageMetadata
                                       \<lparr> image_id = cr_image_id request,
                                         user_id = cr_user_id request,
                                         filename = cr_filename request,
                                         content_type = ctype,
                                         file_size = fsize,
                                         upload_timestamp = ts,
                                         tags = cr_tags request,
                                         description = cr_description request,
                                         status = COMPLETED,
                                         s3_key = key \<rparr> of
                                  Inl x \<Rightarrow> (complete_failed x, w)
                                | Inr metadata \<Rightarrow>
                                    (case put_item e now w metadata of
                                       (Inl x, w') \<Rightarrow> (complete_failed x, w')
                                     | (Inr ok, w') \<Rightarrow>
                                         (success_response
                                            (CompleteUploadResponse (cr_image_id request) ''completed''
                                               ''Image upload completed successfully'')
                                            200, w')))))))"

subsection \<open>\<^verbatim>\<open>src/lambda_handlers/delete_image.py\<close>\<close>

definition falsy :: "string option \<Rightarrow> bool" where
  \<comment> \<open>\<^verbatim>\<open>not v\<close> for an optional string: \<open>None\<close> and the empty string.\<close>
  "falsy v \<longleftrightarrow> v = None \<or> v = Some []"

definition delete_failed :: "exn \<Rightarrow> response" where
  "delete_failed x = internal_error_response (''Failed to delete image: '' @ str_exn x)"

definition delete_image_handler ::
  "env \<Rightarrow> string option \<Rightarrow> exn + string option \<Rightarrow> backend \<Rightarrow> response \<times> backend" where
  \<comment> \<open>\<open>path_image_id\<close> is the path parameter, \<open>event_body\<close> the parsed body reduced to its
      \<open>user_id\<close>. The result of \<^verbatim>\<open>s3_service.delete_object\<close> is dropped, exception or not.\<close>
  "delete_image_handler e path_image_id event_body w =
     (if falsy path_image_id then (validation_error_response ''Missing image_id in path'' None, w)
      else
        (case event_body of
           Inl x \<Rightarrow> (delete_failed x, w)
         | Inr body_user_id \<Rightarrow>
             if falsy body_user_id
             then (validation_error_response ''Missing user_id in request body'' None, w)
             else
               (let iid = the path_image_id; uid = the body_user_id
                in case get_item e w iid of
                     Inl x \<Rightarrow> (delete_failed x, w)
                   | Inr None \<Rightarrow> (not_found_response (''Image not found: '' @ iid), w)
                   | Inr (Some metadata) \<Rightarrow>
                       if user_id metadata \<noteq> uid
                       then (unauthorized_response ''You don't have permission to delete this image'', w)
                       else
                         (let (r, w1) = delete_object e w (s3_key metadata)
                          in case delete_item e w1 iid of
                               (Inl x, w2) \<Rightarrow> (delete_failed x, w2)
                             | (Inr ok, w2) \<Rightarrow>
                                 (success_response
                                    (DeleteImageResponse iid ''deleted'' ''Image deleted successfully'')
                                    200, w2)))))"

subsection \<open>\<^verbatim>\<open>src/lambda_handlers/get_image_presigned_url.py\<close>\<close>



section \<open>The pagination token: \<^verbatim>\<open>base64\<close> and \<^verbatim>\<open>json\<close>\<close>

text \<open>
  The list handler encodes the table's continuation key with
  \<^verbatim>\<open>base64.b64encode(json.dumps(next_key).encode()).decode()\<close> and decodes a client's token
  with \<^verbatim>\<open>json.loads(base64.b64decode(token))\<close>. Both library functions are modelled here;
  a byte is a character, as a code point is.
\<close>

subsection \<open>Base64\<close>

definition b64_char :: "nat \<Rightarrow> char" where
  \<comment> \<open>The alphabet \<^verbatim>\<open>A-Z a-z 0-9 + /\<close> by index.\<close>
  "b64_char n =
     (if n < 26 then char_of (65 + n)
      else if n < 52 then char_of (71 + n)
      else if n < 62 then char_of (n - 4)
      else if n = 62 then CHR ''+'' else CHR ''/'')"

definition b64_index :: "char \<Rightarrow> nat option" where
  \<comment> \<open>The decoding table: the index of a character of the alphabet, \<open>None\<close> for any other.\<close>
  "b64_index c =
     (let v = (of_char c :: nat)
      in if 65 \<le> v \<and> v \<le> 90 then Some (v - 65)
         else if 97 \<le> v \<and> v \<le> 122 then Some (v - 71)
         else if 48 \<le> v \<and> v \<le> 57 then Some (v + 4)
         else if c = CHR ''+'' then Some 62
         else if c = CHR ''/'' then Some 63
         else None)"

fun b64encode :: "string \<Rightarrow> string" where
  "b64encode (a # b # c # rest) =
     [b64_char (of_char a div 4),
      b64_char ((of_char a mod 4) * 16 + of_char b div 16),
      b64_char ((of_char b mod 16) * 4 + of_char c div 64),
      b64_char (of_char c mod 64)] @ b64encode rest"
| "b64encode [a, b] =
     [b64_char (of_char a div 4),
      b64_char ((of_char a mod 4) * 16 + of_char b div 16),
      b64_char ((of_char b mod 16) * 4),
      CHR ''='']"
| "b64encode [a] =
     [b64_char (of_char a div 4), b64_char ((of_char a mod 4) * 16), CHR ''='', CHR ''='']"
| "b64encode [] = []"

fun a2b_base64 :: "string \<Rightarrow> nat \<Rightarrow> nat \<Rightarrow> nat \<Rightarrow> string \<Rightarrow> string option" where
  \<comment> \<open>The decoding loop of \<^verbatim>\<open>binascii.a2b_base64\<close> in its default, non-strict mode, with its
      state \<open>quad_pos\<close>, \<open>leftchar\<close>, \<open>pads\<close> and the bytes written so far. Characters outside
      the alphabet are skipped; a completed pad sequence ends the decoding; input that ends
      inside a quad is an error (\<open>None\<close>).\<close>
  "a2b_base64 [] quad_pos leftchar pads out = (if quad_pos = 0 then Some out else None)"
| "a2b_base64 (c # cs) quad_pos leftchar pads out =
     (if c = CHR ''='' then
        (if quad_pos \<ge> 2 \<and> quad_pos + (pads + 1) \<ge> 4 then Some out
         else a2b_base64 cs quad_pos leftchar (if quad_pos \<ge> 2 then pads + 1 else pads) out)
      else
        (case b64_index c of
           None \<Rightarrow> a2b_base64 cs quad_pos leftchar pads out
         | Some v \<Rightarrow>
             if quad_pos = 0 then a2b_base64 cs 1 v 0 out
             else if quad_pos = 1
               then a2b_base64 cs 2 (v mod 16) 0 (out @ [char_of (leftchar * 4 + v div 16)])
             else if quad_pos = 2
               then a2b_base64 cs 3 (v mod 4) 0 (out @ [char_of (leftchar * 16 + v div 4)])
             else a2b_base64 cs 0 0 0 (out @ [char_of (leftchar * 64 + v)])))"

definition b64decode :: "string \<Rightarrow> string option" where
  \<comment> \<open>\<^verbatim>\<open>base64.b64decode(s)\<close> on a \<open>str\<close>: a character outside ASCII is an error.\<close>
  "b64decode s =
     (if list_ex (\<lambda>c. (of_char c :: nat) \<ge> 128) s then None else a2b_base64 s 0 0 0 [])"

subsection \<open>JSON\<close>

text \<open>
  A decoded JSON document, as \<^verbatim>\<open>json.loads\<close> returns it. A number with a fraction or an
  exponent, and the constants \<^verbatim>\<open>NaN\<close>, \<^verbatim>\<open>Infinity\<close> and \<^verbatim>\<open>-Infinity\<close>, are Python floats;
  they are kept as the text read. An object is a dictionary in insertion order.
\<close>

datatype json =
    JNull
  | JBool bool
  | JInt int
  | JFloat string
  | JStr string
  | JArr "json list"
  | JObj "(string \<times> json) list"

definition is_digit :: "char \<Rightarrow> bool" where
  "is_digit c \<longleftrightarrow> 48 \<le> (of_char c :: nat) \<and> (of_char c :: nat) \<le> 57"

definition float_nonzero :: "string \<Rightarrow> bool" where
  \<comment> \<open>Whether the float read from the text is not zero: some digit of the mantissa is not
      \<^verbatim>\<open>0\<close>. (A value that underflows to zero is not modelled.)\<close>
  "float_nonzero l \<longleftrightarrow>
     l = ''NaN'' \<or> l = ''Infinity'' \<or> l = ''-Infinity''
     \<or> list_ex (\<lambda>c. is_digit c \<and> c \<noteq> CHR ''0'')
          (takeWhile (\<lambda>c. c \<noteq> CHR ''e'' \<and> c \<noteq> CHR ''E'') l)"

fun truthy :: "json \<Rightarrow> bool" where
  \<comment> \<open>Python's truth value of a decoded document.\<close>
  "truthy JNull = False"
| "truthy (JBool b) = b"
| "truthy (JInt n) = (n \<noteq> 0)"
| "truthy (JFloat l) = float_nonzero l"
| "truthy (JStr s) = (s \<noteq> [])"
| "truthy (JArr xs) = (xs \<noteq> [])"
| "truthy (JObj ms) = (ms \<noteq> [])"

subsubsection \<open>\<^verbatim>\<open>json.dumps\<close> of a dictionary of strings\<close>

definition hex_digit :: "nat \<Rightarrow> char" where
  "hex_digit n = (if n < 10 then char_of (48 + n) else char_of (87 + n))"

definition escape_char :: "char \<Rightarrow> string" where
  \<comment> \<open>One character of a string under \<^verbatim>\<open>ensure_ascii=True\<close>.\<close>
  "escape_char c =
     (if c = CHR 0x22 then [CHR 0x5C, CHR 0x22]
      else if c = CHR 0x5C then [CHR 0x5C, CHR 0x5C]
      else if c = CHR 0x0A then [CHR 0x5C, CHR ''n'']
      else if c = CHR 0x0D then [CHR 0x5C, CHR ''r'']
      else if c = CHR 0x09 then [CHR 0x5C, CHR ''t'']
      else if c = CHR 0x08 then [CHR 0x5C, CHR ''b'']
      else if c = CHR 0x0C then [CHR 0x5C, CHR ''f'']
      else if 32 \<le> (of_char c :: nat) \<and> (of_char c :: nat) \<le> 126 then [c]
      else [CHR 0x5C, CHR ''u'', CHR ''0'', CHR ''0'',
            hex_digit (of_char c div 16), hex_digit (of_char c mod 16)])"

definition dumps_str :: "string \<Rightarrow> string" where
  "dumps_str s = [CHR 0x22] @ concat (map escape_char s) @ [CHR 0x22]"

fun dumps_members :: "(string \<times> string) list \<Rightarrow> string" where
  "dumps_members [] = []"
| "dumps_members [(k, v)] = dumps_str k @ '': '' @ dumps_str v"
| "dumps_members ((k, v) # m # ms) = dumps_str k @ '': '' @ dumps_str v @ '', '' @ dumps_members (m # ms)"

definition json_dumps :: "(string \<times> string) list \<Rightarrow> string" where
  \<comment> \<open>\<^verbatim>\<open>json.dumps(d)\<close> for a dictionary \<open>d\<close> from strings to strings, with the default
      separators.\<close>
  "json_dumps d = ''{'' @ dumps_members d @ ''}''"

subsubsection \<open>\<^verbatim>\<open>json.loads\<close>\<close>

definition is_ws :: "char \<Rightarrow> bool" where
  "is_ws c \<longleftrightarrow> c = CHR '' '' \<or> c = CHR 0x09 \<or> c = CHR 0x0A \<or> c = CHR 0x0D"

definition skip_ws :: "string \<Rightarrow> string" where
  "skip_ws s = dropWhile is_ws s"

definition hex_val :: "char \<Rightarrow> nat option" where
  "hex_val c =
     (let v = (of_char c :: nat)
      in if 48 \<le> v \<and> v \<le> 57 then Some (v - 48)
         else if 97 \<le> v \<and> v \<le> 102 then Some (v - 87)
         else if 65 \<le> v \<and> v \<le> 70 then Some (v - 55)
         else None)"

definition hex4 :: "char \<Rightarrow> char \<Rightarrow> char \<Rightarrow> char \<Rightarrow> nat option" where
  "hex4 a b c d =
     (case (hex_val a, hex_val b, hex_val c, hex_val d) of
        (Some p, Some q, Some r, Some s) \<Rightarrow> Some (((p * 16 + q) * 16 + r) * 16 + s)
      | _ \<Rightarrow> None)"

definition unescape :: "char \<Rightarrow> char option" where
  \<comment> \<open>The character after a backslash, other than \<^verbatim>\<open>u\<close>.\<close>
  "unescape e =
     (if e = CHR 0x22 then Some (CHR 0x22)
      else if e = CHR 0x5C then Some (CHR 0x5C)
      else if e = CHR ''/'' then Some (CHR ''/'')
      else if e = CHR ''b'' then Some (CHR 0x08)
      else if e = CHR ''f'' then Some (CHR 0x0C)
      else if e = CHR ''n'' then Some (CHR 0x0A)
      else if e = CHR ''r'' then Some (CHR 0x0D)
      else if e = CHR ''t'' then Some (CHR 0x09)
      else None)"

definition cons_str :: "char \<Rightarrow> (string \<times> string) option \<Rightarrow> (string \<times> string) option" where
  "cons_str c r = (case r of None \<Rightarrow> None | Some (s, rest) \<Rightarrow> Some (c # s, rest))"

fun scanstring :: "string \<Rightarrow> (string \<times> string) option" where
  \<comment> \<open>The text after an opening quote: the string up to the closing quote, and the rest. A
      control character is an error (strict mode). An escape \<^verbatim>\<open>\uXXXX\<close> above \<^verbatim>\<open>00ff\<close> denotes
      a character outside this model's strings and is refused here, whereas Python reads it.\<close>
  "scanstring [] = None"
| "scanstring (c # cs) =
     (if c = CHR 0x22 then Some ([], cs)
      else if c = CHR 0x5C then
        (case cs of
           [] \<Rightarrow> None
         | e # cs' \<Rightarrow>
             if e = CHR ''u'' then
               (case cs' of
                  h1 # h2 # h3 # h4 # rest \<Rightarrow>
                    (case hex4 h1 h2 h3 h4 of
                       None \<Rightarrow> None
                     | Some n \<Rightarrow> if n < 256 then cons_str (char_of n) (scanstring rest) else None)
                | _ \<Rightarrow> None)
             else
               (case unescape e of
                  None \<Rightarrow> None
                | Some ch \<Rightarrow> cons_str ch (scanstring cs')))
      else if (of_char c :: nat) < 32 then None
      else cons_str c (scanstring cs))"

definition digits_val :: "string \<Rightarrow> nat" where
  "digits_val ds = foldl (\<lambda>a c. a * 10 + (of_char c - 48)) 0 ds"

definition scan_number :: "string \<Rightarrow> (json \<times> string) option" where
  \<comment> \<open>The match of \<^verbatim>\<open>(-?(?:0|[1-9]\d*))(\.\d+)?([eE][-+]?\d+)?\<close> at the start of the text: an
      \<open>int\<close> when neither the fraction nor the exponent matched, a \<open>float\<close> otherwise.\<close>
  "scan_number s =
     (let (sgn, s1) = (case s of
                         c # cs \<Rightarrow> if c = CHR ''-'' then (''-'', cs) else ([], s)
                       | [] \<Rightarrow> ([], s));
          ip = (case s1 of
                  c # cs \<Rightarrow> if c = CHR ''0'' then ''0'' else takeWhile is_digit s1
                | [] \<Rightarrow> [])
      in if ip = [] then None
         else
           (let s2 = drop (length ip) s1;
                fd = (case s2 of
                        c # cs \<Rightarrow> if c = CHR ''.'' then takeWhile is_digit cs else []
                      | [] \<Rightarrow> []);
                frac = (if fd = [] then [] else CHR ''.'' # fd);
                s3 = drop (length frac) s2;
                ex = (case s3 of
                        c # cs \<Rightarrow>
                          if c = CHR ''e'' \<or> c = CHR ''E'' then
                            (let (sg, cs2) =
                                   (case cs of
                                      d # ds \<Rightarrow> if d = CHR ''+'' \<or> d = CHR ''-''
                                                then ([d], ds) else ([], cs)
                                    | [] \<Rightarrow> ([], cs));
                                 ed = takeWhile is_digit cs2
                             in if ed = [] then [] else c # sg @ ed)
                          else []
                      | [] \<Rightarrow> []);
                s4 = drop (length ex) s3
            in if frac = [] \<and> ex = []
               then Some (JInt (if sgn = [] then int (digits_val ip) else - int (digits_val ip)), s4)
               else Some (JFloat (sgn @ ip @ frac @ ex), s4)))"

definition dict_of :: "(string \<times> json) list \<Rightarrow> (string \<times> json) list" where
  \<comment> \<open>\<^verbatim>\<open>dict(pairs)\<close>: a later pair with the same key replaces the value of the earlier one.\<close>
  "dict_of pairs = fold (\<lambda>(k, v). AList.update k v) pairs []"

fun parse_value :: "nat \<Rightarrow> string \<Rightarrow> (json \<times> string) option"
  and parse_elems :: "nat \<Rightarrow> string \<Rightarrow> (json list \<times> string) option"
  and parse_members :: "nat \<Rightarrow> string \<Rightarrow> ((string \<times> json) list \<times> string) option"
where
  \<comment> \<open>The scanner of \<^verbatim>\<open>json.decoder\<close>: one value at the start of the text, the elements of an
      array after its first bracket, the members of an object after the quote that opens the
      first name. The first argument bounds the depth of the recursion.\<close>
  "parse_value 0 s = None"
| "parse_value (Suc n) s =
     (case s of
        [] \<Rightarrow> None
      | c # cs \<Rightarrow>
          if c = CHR 0x22 then
            (case scanstring cs of None \<Rightarrow> None | Some (str, r) \<Rightarrow> Some (JStr str, r))
          else if c = CHR ''{'' then
            (case skip_ws cs of
               [] \<Rightarrow> None
             | d # r \<Rightarrow>
                 if d = CHR ''}'' then Some (JObj [], r)
                 else if d = CHR 0x22 then
                   (case parse_members n r of
                      None \<Rightarrow> None
                    | Some (ms, r') \<Rightarrow> Some (JObj (dict_of ms), r'))
                 else None)
          else if c = CHR ''['' then
            (case skip_ws cs of
               [] \<Rightarrow> None
             | d # r \<Rightarrow>
                 if d = CHR '']'' then Some (JArr [], r)
                 else (case parse_elems n (d # r) of
                         None \<Rightarrow> None
                       | Some (vs, r') \<Rightarrow> Some (JArr vs, r')))
          else if take 4 s = ''null'' then Some (JNull, drop 4 s)
          else if take 4 s = ''true'' then Some (JBool True, drop 4 s)
          else if take 5 s = ''false'' then Some (JBool False, drop 5 s)
          else
            (case scan_number s of
               Some r \<Rightarrow> Some r
             | None \<Rightarrow>
                 if take 3 s = ''NaN'' then Some (JFloat ''NaN'', drop 3 s)
                 else if take 8 s = ''Infinity'' then Some (JFloat ''Infinity'', drop 8 s)
                 else if take 9 s = ''-Infinity'' then Some (JFloat ''-Infinity'', drop 9 s)
                 else None))"
| "parse_elems 0 s = None"
| "parse_elems (Suc n) s =
     (case parse_value n s of
        None \<Rightarrow> None
      | Some (v, r) \<Rightarrow>
          (case skip_ws r of
             [] \<Rightarrow> None
           | d # r' \<Rightarrow>
               if d = CHR '']'' then Some ([v], r')
               else if d = CHR '','' then
                 (case parse_elems n (skip_ws r') of
                    None \<Rightarrow> None
                  | Some (vs, r'') \<Rightarrow> Some (v # vs, r''))
               else None))"
| "parse_members 0 s = None"
| "parse_members (Suc n) s =
     (case scanstring s of
        None \<Rightarrow> None
      | Some (k, r) \<Rightarrow>
          (case skip_ws r of
             [] \<Rightarrow> None
           | d # r1 \<Rightarrow>
               if d \<noteq> CHR '':'' then None
               else
                 (case parse_value n (skip_ws r1) of
                    None \<Rightarrow> None
                  | Some (v, r2) \<Rightarrow>
                      (case skip_ws r2 of
                         [] \<Rightarrow> None
                       | d2 # r3 \<Rightarrow>
                           if d2 = CHR ''}'' then Some ([(k, v)], r3)
                           else if d2 = CHR '','' then
                             (case skip_ws r3 of
                                [] \<Rightarrow> None
                              | q # r4 \<Rightarrow>
                                  if q = CHR 0x22 then
                                    (case parse_members n r4 of
                                       None \<Rightarrow> None
                                     | Some (ms, r5) \<Rightarrow> Some ((k, v) # ms, r5))
                                  else None)
                           else None))))"

definition json_loads :: "string \<Rightarrow> json option" where
  \<comment> \<open>\<^verbatim>\<open>json.loads\<close> on a text: one value between optional whitespace, \<open>None\<close> when the decoder
      raises. The bound on the depth is the length of the text, which no document reaches;
      Python's own recursion limit is not modelled.\<close>
  "json_loads s =
     (case parse_value (Suc (length s)) (skip_ws s) of
        None \<Rightarrow> None
      | Some (v, r) \<Rightarrow> if skip_ws r = [] then Some v else None)"

fun utf8_decode :: "string \<Rightarrow> string option" where
  \<comment> \<open>The bytes of a document read as UTF-8, for the code points up to 255. Other code points
      are outside this model's strings; a byte-order mark and the detection of UTF-16 and
      UTF-32, which \<^verbatim>\<open>json.loads\<close> performs on bytes, are not modelled either.\<close>
  "utf8_decode [] = Some []"
| "utf8_decode (b # bs) =
     (if (of_char b :: nat) < 128 then
        (case utf8_decode bs of None \<Rightarrow> None | Some s \<Rightarrow> Some (b # s))
      else if b = CHR 0xC2 \<or> b = CHR 0xC3 then
        (case bs of
           [] \<Rightarrow> None
         | c # bs' \<Rightarrow>
             if 128 \<le> (of_char c :: nat) \<and> (of_char c :: nat) < 192 then
               (case utf8_decode bs' of
                  None \<Rightarrow> None
                | Some s \<Rightarrow> Some (char_of ((of_char b - 192) * 64 + (of_char c - 128) :: nat) # s))
             else None)
      else None)"

definition decode_token :: "string \<Rightarrow> json option" where
  \<comment> \<open>\<^verbatim>\<open>json.loads(base64.b64decode(token))\<close>; \<open>None\<close> when either call raises.\<close>
  "decode_token token =
     (case b64decode token of
        None \<Rightarrow> None
      | Some bytes \<Rightarrow> (case utf8_decode bytes of None \<Rightarrow> None | Some text \<Rightarrow> json_loads text))"

definition encode_token :: "(string \<times> string) list \<Rightarrow> string" where
  \<comment> \<open>\<^verbatim>\<open>base64.b64encode(json.dumps(next_key).encode()).decode()\<close>; the text that
      \<^verbatim>\<open>json.dumps\<close> returns is ASCII, so its bytes are its characters.\<close>
  "encode_token next_key = b64encode (json_dumps next_key)"

section \<open>Listing\<close>

subsection \<open>The table's \<^verbatim>\<open>query\<close> and \<^verbatim>\<open>scan\<close>\<close>

text \<open>
  The table has the primary key \<open>image_id\<close> and one global secondary index with the partition
  key \<open>user_id\<close> and the sort key \<open>upload_timestamp\<close>, all of them strings
  (\<^verbatim>\<open>tests/conftest.py\<close>). An item is in the index when it has both attributes. Strings are
  compared as the service compares them, character by character. Within one partition the
  index is read in the order of the sort key; items with the same sort key are read in the
  order of their primary key (the service promises no order among them). A scan reads the
  table in a fixed order of the primary keys; the model takes the order of the key strings
  (the service uses a hash of the key). A page ends after \<open>Limit\<close> items and then reports the
  key of its last item; the service's bound of one megabyte on a page is not modelled.
\<close>

definition rows :: "backend \<Rightarrow> (string \<times> item) list" where
  \<comment> \<open>The items of the table, one for each primary key.\<close>
  "rows w = AList.clearjunk (table w)"

datatype key_condition = AnyTime | From string | Until string | Between string string

fun in_range :: "key_condition \<Rightarrow> string \<Rightarrow> bool" where
  \<comment> \<open>The part of a \<open>KeyConditionExpression\<close> that is about the sort key: nothing,
      \<^verbatim>\<open>>= :start_date\<close>, \<^verbatim>\<open><= :end_date\<close>, \<^verbatim>\<open>BETWEEN :start_date AND :end_date\<close>.\<close>
  "in_range AnyTime t = True"
| "in_range (From a) t = (a \<le> t)"
| "in_range (Until b) t = (t \<le> b)"
| "in_range (Between a b) t = (a \<le> t \<and> t \<le> b)"

definition index_partition :: "backend \<Rightarrow> string \<Rightarrow> ((string \<times> string) \<times> item) list" where
  \<comment> \<open>The items of the index with the partition key \<open>uid\<close>, each with its sort key and its
      primary key.\<close>
  "index_partition w uid =
     map (\<lambda>(iid, it). ((the (item_str it ''upload_timestamp''), iid), it))
       (filter (\<lambda>(iid, it). item_str it ''user_id'' = Some uid
                            \<and> item_str it ''upload_timestamp'' \<noteq> None)
          (rows w))"

definition str_member :: "(string \<times> json) list \<Rightarrow> string \<Rightarrow> string option" where
  "str_member ms name = (case map_of ms name of Some (JStr s) \<Rightarrow> Some s | _ \<Rightarrow> None)"

definition exclusive_start_key ::
  "string \<Rightarrow> string list \<Rightarrow> json option \<Rightarrow> exn + (string \<times> json) list option" where
  \<comment> \<open>What becomes of the parameter \<open>ExclusiveStartKey\<close> of the operation \<open>op\<close>, when given. The
      client refuses a value that is not a dictionary before it sends the request; the service
      refuses a dictionary that does not consist of exactly the key attributes \<open>names\<close>, each
      with a string.\<close>
  "exclusive_start_key op names esk =
     (case esk of
        None \<Rightarrow> Inr None
      | Some (JObj ms) \<Rightarrow>
          if list_all (\<lambda>k. k \<in> set names) (map fst ms)
             \<and> list_all (\<lambda>n. str_member ms n \<noteq> None) names
          then Inr (Some ms)
          else Inl (ClientError ''ValidationException'' op ''The provided starting key is invalid'')
      | Some other \<Rightarrow>
          Inl (PyException ''ParamValidationError''
                 ''Parameter validation failed: Invalid type for parameter ExclusiveStartKey''))"

definition limit_refused :: exn where
  "limit_refused =
     PyException ''ParamValidationError''
       ''Parameter validation failed: Invalid value for parameter Limit, valid min value: 1''"

definition table_query ::
  "env \<Rightarrow> backend \<Rightarrow> string \<Rightarrow> key_condition \<Rightarrow> int \<Rightarrow> json option
     \<Rightarrow> exn + item list \<times> (string \<times> string) list option" where
  \<comment> \<open>\<^verbatim>\<open>table.query\<close> on the index with \<^verbatim>\<open>ScanIndexForward=False\<close>: the items of the partition
      \<open>uid\<close> whose sort key meets the condition, from the greatest sort key downwards, after
      the start key when one is given. The result is the page (\<open>Items\<close>) and
      \<open>LastEvaluatedKey\<close>.\<close>
  "table_query e w uid cond lim esk =
     (case query_fault e of
        Some x \<Rightarrow> Inl x
      | None \<Rightarrow>
          if lim < 1 then Inl limit_refused
          else
            (case exclusive_start_key ''Query'' [''image_id'', ''user_id'', ''upload_timestamp''] esk of
               Inl x \<Rightarrow> Inl x
             | Inr start \<Rightarrow>
                 if (case start of
                       None \<Rightarrow> False
                     | Some ms \<Rightarrow> \<not> (str_member ms ''user_id'' = Some uid
                                      \<and> in_range cond (the (str_member ms ''upload_timestamp''))))
                 then Inl (ClientError ''ValidationException'' ''Query''
                             ''The provided starting key is outside query boundaries based on provided conditions'')
                 else
                   (let matching = filter (\<lambda>(k, it). in_range cond (fst k)) (index_partition w uid);
                        ordered = rev (sort_key fst matching);
                        rest = (case start of
                                  None \<Rightarrow> ordered
                                | Some ms \<Rightarrow>
                                    filter (\<lambda>(k, it). k < (the (str_member ms ''upload_timestamp''),
                                                           the (str_member ms ''image_id'')))
                                      ordered);
                        page = take (nat lim) rest
                    in Inr (map snd page,
                            if nat lim \<le> length rest
                            then Some [(''image_id'', snd (fst (last page))),
                                       (''user_id'', uid),
                                       (''upload_timestamp'', fst (fst (last page)))]
                            else None))))"

definition table_scan ::
  "env \<Rightarrow> backend \<Rightarrow> int \<Rightarrow> json option \<Rightarrow> exn + item list \<times> (string \<times> string) list option" where
  \<comment> \<open>\<^verbatim>\<open>table.scan\<close> with a limit and an optional start key.\<close>
  "table_scan e w lim esk =
     (case scan_fault e of
        Some x \<Rightarrow> Inl x
      | None \<Rightarrow>
          if lim < 1 then Inl limit_refused
          else
            (case exclusive_start_key ''Scan'' [''image_id''] esk of
               Inl x \<Rightarrow> Inl x
             | Inr start \<Rightarrow>
                 (let ordered = sort_key fst (rows w);
                      rest = (case start of
                                None \<Rightarrow> ordered
                              | Some ms \<Rightarrow>
                                  filter (\<lambda>(iid, it). the (str_member ms ''image_id'') < iid) ordered);
                      page = take (nat lim) rest
                  in Inr (map snd page,
                          if nat lim \<le> length rest
                          then Some [(''image_id'', fst (last page))]
                          else None))))"

subsection \<open>\<^verbatim>\<open>src/services/dynamodb_service.py\<close>: \<^verbatim>\<open>query_by_user\<close> and \<^verbatim>\<open>scan_all\<close>\<close>

fun images_of_items :: "item list \<Rightarrow> exn + ImageMetadata list" where
  \<comment> \<open>\<^verbatim>\<open>[ImageMetadata(**item) for item in items]\<close>: the first item that the model refuses
      raises.\<close>
  "images_of_items [] = Inr []"
| "images_of_items (it # its) =
     (case ImageMetadata_of_item it of
        Inl x \<Rightarrow> Inl x
      | Inr m \<Rightarrow> (case images_of_items its of Inl x \<Rightarrow> Inl x | Inr ms \<Rightarrow> Inr (m # ms)))"

definition key_condition_of :: "string option \<Rightarrow> string option \<Rightarrow> key_condition" where
  \<comment> \<open>The chain \<^verbatim>\<open>if start_date and end_date: ... elif start_date: ... elif end_date: ...\<close>: a
      bound that is \<open>None\<close> or the empty string is not a bound.\<close>
  "key_condition_of start_date end_date =
     (if \<not> falsy start_date \<and> \<not> falsy end_date then Between (the start_date) (the end_date)
      else if \<not> falsy start_date then From (the start_date)
      else if \<not> falsy end_date then Until (the end_date)
      else AnyTime)"

definition query_by_user ::
  "env \<Rightarrow> backend \<Rightarrow> string \<Rightarrow> string option \<Rightarrow> string option \<Rightarrow> int \<Rightarrow> json
     \<Rightarrow> exn + ImageMetadata list \<times> (string \<times> string) list option" where
  \<comment> \<open>\<open>last_evaluated_key\<close> is a decoded document or \<open>JNull\<close> for Python's \<open>None\<close>; it is passed
      on as \<open>ExclusiveStartKey\<close> when it is truthy.\<close>
  "query_by_user e w uid start_date end_date lim last_evaluated_key =
     (case table_query e w uid (key_condition_of start_date end_date) lim
             (if truthy last_evaluated_key then Some last_evaluated_key else None) of
        Inl x \<Rightarrow> Inl x
      | Inr (its, next_key) \<Rightarrow>
          (case images_of_items its of Inl x \<Rightarrow> Inl x | Inr images \<Rightarrow> Inr (images, next_key)))"

definition scan_all ::
  "env \<Rightarrow> backend \<Rightarrow> int \<Rightarrow> json \<Rightarrow> exn + ImageMetadata list \<times> (string \<times> string) list option" where
  "scan_all e w lim last_evaluated_key =
     (case table_scan e w lim (if truthy last_evaluated_key then Some last_evaluated_key else None) of
        Inl x \<Rightarrow> Inl x
      | Inr (its, next_key) \<Rightarrow>
          (case images_of_items its of Inl x \<Rightarrow> Inl x | Inr images \<Rightarrow> Inr (images, next_key)))"

subsection \<open>\<^verbatim>\<open>ListImagesRequest\<close> of \<^verbatim>\<open>src/models/requests.py\<close>\<close>

record ListImagesRequest =
  lr_user_id :: "string option"
  lr_start_date :: "string option"
  lr_end_date :: "string option"
  lr_limit :: int
  lr_next_token :: "string option"

definition replace_Z :: "string \<Rightarrow> string" where
  \<comment> \<open>\<^verbatim>\<open>v.replace('Z', '+00:00')\<close>\<close>
  "replace_Z v = concat (map (\<lambda>c. if c = CHR ''Z'' then ''+00:00'' else [c]) v)"

definition validate_date :: "env \<Rightarrow> string option \<Rightarrow> bool" where
  \<comment> \<open>The validator of the two dates: a value that is \<open>None\<close> or empty is not looked at.\<close>
  "validate_date e v \<longleftrightarrow> falsy v \<or> fromisoformat e (replace_Z (the v))"

definition new_ListImagesRequest ::
  "env \<Rightarrow> string option \<Rightarrow> string option \<Rightarrow> string option \<Rightarrow> int \<Rightarrow> string option
     \<Rightarrow> string list + ListImagesRequest" where
  \<comment> \<open>The constructor on the dictionary that the handler builds, whose limit is an \<open>int\<close>:
      the names of the fields in error, or the request.\<close>
  "new_ListImagesRequest e uid start_date end_date lim token =
     (let errs = (if validate_date e start_date then [] else [''start_date''])
               @ (if validate_date e end_date then [] else [''end_date''])
               @ (if 1 \<le> lim \<and> lim \<le> 100 then [] else [''limit''])
      in if errs = [] then
           Inr \<lparr> lr_user_id = uid, lr_start_date = start_date, lr_end_date = end_date,
                 lr_limit = lim, lr_next_token = token \<rparr>
         else Inl errs)"

subsection \<open>\<^verbatim>\<open>src/lambda_handlers/list_images.py\<close>\<close>

text \<open>
  The query string parameters of the event. Each is a string when present; the limit is given
  as \<^verbatim>\<open>int\<close> reads it, a number or the \<open>ValueError\<close> that \<^verbatim>\<open>int\<close> raises.
\<close>

record list_query =
  q_user_id :: "string option"
  q_start_date :: "string option"
  q_end_date :: "string option"
  q_limit :: "(exn + int) option"
  q_next_token :: "string option"

definition list_failed :: "exn \<Rightarrow> response" where
  "list_failed x = internal_error_response (''Failed to list images: '' @ str_exn x)"

definition limit_of :: "list_query \<Rightarrow> exn + int" where
  \<comment> \<open>\<^verbatim>\<open>int(query_params.get('limit', 50))\<close>\<close>
  "limit_of qp = (case q_limit qp of None \<Rightarrow> Inr 50 | Some l \<Rightarrow> l)"

definition decode_pagination_token :: "ListImagesRequest \<Rightarrow> json option" where
  \<comment> \<open>The step "Decode pagination token if present": \<open>last_evaluated_key\<close>, which stays
      \<open>None\<close> (\<open>JNull\<close>) without a token; the result \<open>None\<close> is the \<^verbatim>\<open>except\<close> branch.\<close>
  "decode_pagination_token request =
     (if falsy (lr_next_token request) then Some JNull
      else decode_token (the (lr_next_token request)))"

definition query_based_on_filters ::
  "env \<Rightarrow> backend \<Rightarrow> ListImagesRequest \<Rightarrow> json
     \<Rightarrow> exn + ImageMetadata list \<times> (string \<times> string) list option" where
  \<comment> \<open>The step "Query based on filters".\<close>
  "query_based_on_filters e w request last_evaluated_key =
     (if \<not> falsy (lr_user_id request)
      then query_by_user e w (the (lr_user_id request)) (lr_start_date request)
             (lr_end_date request) (lr_limit request) last_evaluated_key
      else scan_all e w (lr_limit request) last_evaluated_key)"

definition json_of_key :: "(string \<times> string) list \<Rightarrow> json" where
  \<comment> \<open>A key of the table, a dictionary from attribute names to strings, as a document.\<close>
  "json_of_key k = JObj (map (\<lambda>(name, v). (name, JStr v)) k)"

definition encode_next_token :: "(string \<times> string) list option \<Rightarrow> string option" where
  \<comment> \<open>The step "Encode next pagination token": \<^verbatim>\<open>if next_key:\<close> holds for a dictionary that
      is not empty.\<close>
  "encode_next_token next_key =
     (case next_key of
        None \<Rightarrow> None
      | Some k \<Rightarrow> if k = [] then None else Some (encode_token k))"

definition list_images_handler :: "env \<Rightarrow> list_query \<Rightarrow> backend \<Rightarrow> response \<times> backend" where
  "list_images_handler e qp w =
     (case limit_of qp of
        Inl x \<Rightarrow> (list_failed x, w)
      | Inr lim \<Rightarrow>
          (case new_ListImagesRequest e (q_user_id qp) (q_start_date qp) (q_end_date qp) lim
                  (q_next_token qp) of
             Inl errs \<Rightarrow> (validation_error_response ''Invalid request parameters'' (Some errs), w)
           | Inr request \<Rightarrow>
               (case decode_pagination_token request of
                  None \<Rightarrow> (validation_error_response ''Invalid pagination token'' None, w)
                | Some last_evaluated_key \<Rightarrow>
                    (case query_based_on_filters e w request last_evaluated_key of
                       Inl x \<Rightarrow> (list_failed x, w)
                     | Inr (images, next_key) \<Rightarrow>
                         (success_response
                            (ListImagesResponse images (length images)
                               (encode_next_token next_key) (next_key \<noteq> None))
                            200, w)))))"


section \<open>Concrete inputs\<close>

definition two_digits :: "nat \<Rightarrow> nat \<Rightarrow> string \<Rightarrow> bool" where
  \<comment> \<open>Two decimal digits that denote a number between \<open>lo\<close> and \<open>hi\<close>.\<close>
  "two_digits lo hi s \<longleftrightarrow>
     length s = 2 \<and> list_all is_digit s \<and> lo \<le> digits_val s \<and> digits_val s \<le> hi"

definition plain_dates :: "string \<Rightarrow> bool" where
  \<comment> \<open>The date parser of the concrete runs. It accepts \<^verbatim>\<open>YYYY-MM-DD\<close> and
      \<^verbatim>\<open>YYYY-MM-DDTHH:MM:SS\<close> for the days 1 to 28 of a month, all of which
      \<^verbatim>\<open>datetime.fromisoformat\<close> accepts, and nothing else.\<close>
  "plain_dates s \<longleftrightarrow>
     length (take 4 s) = 4 \<and> list_all is_digit (take 4 s) \<and> 1 \<le> digits_val (take 4 s)
     \<and> take 1 (drop 4 s) = ''-'' \<and> two_digits 1 12 (take 2 (drop 5 s))
     \<and> take 1 (drop 7 s) = ''-'' \<and> two_digits 1 28 (take 2 (drop 8 s))
     \<and> (drop 10 s = []
          \<or> take 1 (drop 10 s) = ''T'' \<and> two_digits 0 23 (take 2 (drop 11 s))
            \<and> take 1 (drop 13 s) = '':'' \<and> two_digits 0 59 (take 2 (drop 14 s))
            \<and> take 1 (drop 16 s) = '':'' \<and> two_digits 0 59 (take 2 (drop 17 s))
            \<and> drop 19 s = [])"

definition plain_env :: env where
  \<comment> \<open>An environment in which no backend call fails, with the default expiry times.\<close>
  "plain_env =
     \<lparr> head_object_fault = None, delete_object_fault = None, presigned_post_fault = None,
       presigned_url_fault = None, put_item_fault = None, get_item_fault = None,
       delete_item_fault = None, update_item_fault = None, query_fault = None, scan_fault = None,
       fromisoformat = plain_dates,
       sign_post = (\<lambda>key ctype fsize expires_in.
                      (''https://bucket.s3.amazonaws.com/'', [(''Content-Type'', ctype), (''key'', key)])),
       sign_get = (\<lambda>key disposition expires_in. ''https://bucket.s3.amazonaws.com/'' @ key),
       S3_PRESIGNED_URL_EXPIRY_UPLOAD = 3600,
       S3_PRESIGNED_URL_EXPIRY_DOWNLOAD = 900 \<rparr>"

definition photo_upload_body :: "string \<Rightarrow> string \<Rightarrow> int \<Rightarrow> upload_body" where
  "photo_upload_body fname ctype fsize =
     \<lparr> ub_user_id = Some ''u1'', ub_filename = Some fname, ub_content_type = Some ctype,
       ub_file_size = Some fsize, ub_tags = None, ub_description = None \<rparr>"

definition photo_complete_body :: "string \<Rightarrow> complete_body" where
  "photo_complete_body fname =
     \<lparr> cb_image_id = Some ''id1'', cb_user_id = Some ''u1'', cb_filename = Some fname,
       cb_content_type = Some ''image/jpeg'', cb_file_size = Some 2048,
       cb_tags = None, cb_description = None \<rparr>"

definition photo_complete_request :: "string \<Rightarrow> CompleteUploadRequest" where
  "photo_complete_request fname =
     \<lparr> cr_image_id = ''id1'', cr_user_id = ''u1'', cr_filename = fname,
       cr_content_type = ''image/jpeg'', cr_file_size = 2048, cr_tags = None,
       cr_description = None \<rparr>"

definition bucket_with :: "string \<Rightarrow> string \<Rightarrow> backend" where
  \<comment> \<open>An empty table, and a bucket holding one object of 2048 bytes.\<close>
  "bucket_with key ctype =
     \<lparr> table = [], objects = [(key, \<lparr>ContentType = ctype, ContentLength = 2048\<rparr>)] \<rparr>"

definition completed_metadata :: "CompleteUploadRequest \<Rightarrow> s3_object \<Rightarrow> string \<Rightarrow> ImageMetadata" where
  \<comment> \<open>The record that the complete-upload flow builds from a request and the store's report.\<close>
  "completed_metadata r obj ts =
     \<lparr> image_id = cr_image_id r, user_id = cr_user_id r, filename = cr_filename r,
       content_type = ContentType obj, file_size = ContentLength obj, upload_timestamp = ts,
       tags = cr_tags r, description = cr_description r, status = COMPLETED,
       s3_key = complete_s3_key r \<rparr>"

definition beach_metadata :: ImageMetadata where
  "beach_metadata =
     \<lparr> image_id = ''id1'', user_id = ''owner-user'', filename = ''beach.jpg'',
       content_type = ''image/jpeg'', file_size = 2048,
       upload_timestamp = ''2026-02-13T10:00:00'', tags = None, description = None,
       status = COMPLETED, s3_key = ''images/owner-user/id1_beach.jpg'' \<rparr>"

definition beach_backend :: backend where
  "beach_backend =
     \<lparr> table = [(''id1'', item_of_metadata beach_metadata ''2026-02-13T10:00:01'')],
       objects = [(''images/owner-user/id1_beach.jpg'',
                   \<lparr>ContentType = ''image/jpeg'', ContentLength = 2048\<rparr>)] \<rparr>"

definition store_denied_env :: env where
  \<comment> \<open>As \<open>plain_env\<close>, but the object store refuses every deletion.\<close>
  "store_denied_env =
     plain_env\<lparr>delete_object_fault := Some (ClientError ''AccessDenied'' ''DeleteObject'' ''Access Denied'')\<rparr>"

definition photo_of :: "string \<Rightarrow> string \<Rightarrow> string \<Rightarrow> ImageMetadata" where
  \<comment> \<open>A completed record with the given identifier, owner and upload time.\<close>
  "photo_of iid uid ts =
     \<lparr> image_id = iid, user_id = uid, filename = ''a.jpg'', content_type = ''image/jpeg'',
       file_size = 2048, upload_timestamp = ts, tags = None, description = None,
       status = COMPLETED, s3_key = ''images/'' @ uid @ ''/'' @ iid @ ''_a.jpg'' \<rparr>"

definition album :: backend where
  \<comment> \<open>Three pictures of \<open>u1\<close> taken on three days of January, and one of \<open>u2\<close>.\<close>
  "album =
     \<lparr> table = [(''p2'', item_of_metadata (photo_of ''p2'' ''u1'' ''2026-01-11'') ''2026-02-01''),
                (''p1'', item_of_metadata (photo_of ''p1'' ''u1'' ''2026-01-10'') ''2026-02-01''),
                (''q1'', item_of_metadata (photo_of ''q1'' ''u2'' ''2026-01-11'') ''2026-02-01''),
                (''p3'', item_of_metadata (photo_of ''p3'' ''u1'' ''2026-01-12'') ''2026-02-01'')],
       objects = [] \<rparr>"

definition list_query_of :: "string option \<Rightarrow> string option \<Rightarrow> string option \<Rightarrow> string option \<Rightarrow> list_query" where
  \<comment> \<open>A list request without a limit.\<close>
  "list_query_of uid start_date end_date token =
     \<lparr> q_user_id = uid, q_start_date = start_date, q_end_date = end_date, q_limit = None,
       q_next_token = token \<rparr>"


definition page_query :: "string option \<Rightarrow> string option \<Rightarrow> list_query" where
  \<comment> \<open>A list request for pages of two images.\<close>
  "page_query uid token =
     \<lparr> q_user_id = uid, q_start_date = None, q_end_date = None, q_limit = Some (Inr 2),
       q_next_token = token \<rparr>"


section \<open>Properties\<close>

subsection \<open>Auxiliary facts\<close>

lemma update_absent: "k \<notin> fst ` set al \<Longrightarrow> AList.update k v al = al @ [(k, v)]"
  by (induction al) auto

lemma map_of_absent: "map_of al k = None \<longleftrightarrow> k \<notin> fst ` set al"
  by (simp add: map_of_eq_None_iff)

lemma str_nat_1: "str_nat (Suc 0) = ''1''"
  by code_simp

lemma validate_jpeg: "validate_content_type ''image/jpeg''"
  by (simp add: validate_content_type_def)

lemma sanitize_photo: "sanitize_filename ''my photo.jpg'' = ''my_photo.jpg''"
  by (simp add: sanitize_filename_def last_segment_def safe_char_def)

lemma required_str_Nil: "required_str f v = [] \<longleftrightarrow> (\<exists>s. v = Some s \<and> s \<noteq> [])"
  by (cases v) (auto simp: required_str_def Suc_le_eq)

lemma content_type_errors_Nil:
  "content_type_errors v = [] \<longleftrightarrow> (\<exists>s. v = Some s \<and> validate_content_type s)"
  by (cases v) (auto simp: content_type_errors_def validate_content_type_def)

lemma upload_file_size_errors_Nil:
  "upload_file_size_errors v = [] \<longleftrightarrow> (\<exists>n. v = Some n \<and> 1 \<le> n \<and> n \<le> 10485760)"
  by (cases v) (auto simp: upload_file_size_errors_def)

lemma complete_file_size_errors_Nil:
  "complete_file_size_errors v = [] \<longleftrightarrow> (\<exists>n. v = Some n \<and> 1 \<le> n)"
  by (cases v) (auto simp: complete_file_size_errors_def)

lemma description_errors_Nil:
  "description_errors v = [] \<longleftrightarrow> (\<forall>s. v = Some s \<longrightarrow> length s \<le> 500)"
  by (cases v) (auto simp: description_errors_def)

lemma new_UploadPresignedUrlRequest_accepts:
  "(\<exists>r. new_UploadPresignedUrlRequest b = Inr r) \<longleftrightarrow>
     (\<exists>s. ub_user_id b = Some s \<and> s \<noteq> []) \<and> (\<exists>s. ub_filename b = Some s \<and> s \<noteq> [])
     \<and> (\<exists>s. ub_content_type b = Some s \<and> validate_content_type s)
     \<and> (\<exists>n. ub_file_size b = Some n \<and> 1 \<le> n \<and> n \<le> 10485760)
     \<and> (\<forall>s. ub_description b = Some s \<longrightarrow> length s \<le> 500)"
  unfolding new_UploadPresignedUrlRequest_def Let_def
  by (simp add: required_str_Nil content_type_errors_Nil upload_file_size_errors_Nil
      description_errors_Nil del: One_nat_def)

lemma photo_upload_request:
  "new_UploadPresignedUrlRequest (photo_upload_body ''my photo.jpg'' ''image/jpeg'' 2048) =
     Inr \<lparr> ur_user_id = ''u1'', ur_filename = ''my photo.jpg'', ur_content_type = ''image/jpeg'',
           ur_file_size = 2048, ur_tags = None, ur_description = None \<rparr>"
  by (simp add: new_UploadPresignedUrlRequest_def photo_upload_body_def required_str_def
      content_type_errors_def upload_file_size_errors_def description_errors_def validate_jpeg)

lemma new_photo_complete_request:
  "fname \<noteq> [] \<Longrightarrow>
   new_CompleteUploadRequest (photo_complete_body fname) = Inr (photo_complete_request fname)"
  by (cases fname)
     (simp_all add: new_CompleteUploadRequest_def photo_complete_body_def photo_complete_request_def
       required_str_def content_type_errors_def complete_file_size_errors_def
       description_errors_def validate_jpeg)

lemma keys_agree_iff:
  "upload_s3_key \<lparr> ur_user_id = u, ur_filename = f, ur_content_type = c, ur_file_size = n,
                   ur_tags = t, ur_description = d \<rparr> i
   = complete_s3_key \<lparr> cr_image_id = i, cr_user_id = u, cr_filename = f, cr_content_type = c,
                       cr_file_size = n, cr_tags = t, cr_description = d \<rparr>
   \<longleftrightarrow> sanitize_filename f = f"
  by (simp add: upload_s3_key_def complete_s3_key_def)

lemma plain_env_faults:
  "head_object_fault plain_env = None" "put_item_fault plain_env = None"
  "get_item_fault plain_env = None" "delete_item_fault plain_env = None"
  "update_item_fault plain_env = None" "delete_object_fault plain_env = None"
  by (simp_all add: plain_env_def)

lemma upload_keeps_backend: "snd (upload_presigned_url_handler e uuid4 event_body w) = w"
  by (auto simp: upload_presigned_url_handler_def Let_def split: sum.splits prod.splits)

lemma head_object_plain:
  "head_object_fault e = None \<Longrightarrow>
   head_object e w key =
     (case map_of (objects w) key of
        None \<Rightarrow> Inl (ClientError ''404'' ''HeadObject'' ''Not Found'')
      | Some obj \<Rightarrow> Inr obj)"
  by (simp add: head_object_def)

lemma ImageMetadata_of_item_of_metadata:
  "validate_content_type (content_type m) \<Longrightarrow> file_size m > 0 \<Longrightarrow>
   ImageMetadata_of_item (item_of_metadata m now) = Inr m"
  by (cases "tags m"; cases "description m"; cases "status m")
     (simp_all add: ImageMetadata_of_item_def item_of_metadata_def item_str_def
       item_content_type_def item_file_size_def item_tags_def item_description_def
       item_status_def missing_def str_missing_def status_of_value_def)

lemma key_a: "complete_s3_key (photo_complete_request ''a.jpg'') = ''images/u1/id1_a.jpg''"
  by (simp add: complete_s3_key_def photo_complete_request_def)

lemma request_a:
  "new_CompleteUploadRequest (photo_complete_body ''a.jpg'') = Inr (photo_complete_request ''a.jpg'')"
  by (simp add: new_photo_complete_request)

lemma get_item_beach:
  "get_item_fault e = None \<Longrightarrow> get_item e beach_backend ''id1'' = Inr (Some beach_metadata)"
proof -
  have "ImageMetadata_of_item (item_of_metadata beach_metadata ''2026-02-13T10:00:01'')
          = Inr beach_metadata"
    by (rule ImageMetadata_of_item_of_metadata) (simp_all add: beach_metadata_def validate_jpeg)
  then show "get_item_fault e = None \<Longrightarrow> get_item e beach_backend ''id1'' = Inr (Some beach_metadata)"
    by (simp add: get_item_def beach_backend_def)
qed

lemma store_denied_env_faults:
  "get_item_fault store_denied_env = None" "delete_item_fault store_denied_env = None"
  "delete_object_fault store_denied_env
     = Some (ClientError ''AccessDenied'' ''DeleteObject'' ''Access Denied'')"
  by (simp_all add: store_denied_env_def plain_env_def)

lemma map_of_delete_self: "map_of (AList.delete k al) k = None"
  by (simp add: delete_conv')

lemma char_eq_iff_nat: "c = d \<longleftrightarrow> (of_char c :: nat) = of_char d"
  by simp

lemma b64_index_char: "n < 64 \<Longrightarrow> b64_index (b64_char n) = Some n"
  by (auto simp: b64_index_def b64_char_def Let_def char_eq_iff_nat)

lemma b64_char_not_pad: "n < 64 \<Longrightarrow> b64_char n \<noteq> CHR ''=''"
  by (auto simp: b64_char_def char_eq_iff_nat)

lemma b64_char_ascii: "n < 64 \<Longrightarrow> (of_char (b64_char n) :: nat) < 128"
  by (auto simp: b64_char_def)

lemma a2b_step:
  "v < 64 \<Longrightarrow>
   a2b_base64 (b64_char v # cs) quad_pos leftchar pads out =
     (if quad_pos = 0 then a2b_base64 cs 1 v 0 out
      else if quad_pos = 1
        then a2b_base64 cs 2 (v mod 16) 0 (out @ [char_of (leftchar * 4 + v div 16)])
      else if quad_pos = 2
        then a2b_base64 cs 3 (v mod 4) 0 (out @ [char_of (leftchar * 16 + v div 4)])
      else a2b_base64 cs 0 0 0 (out @ [char_of (leftchar * 64 + v)]))"
  by (simp add: b64_index_char b64_char_not_pad)

lemma sextets:
  fixes x y z :: nat
  assumes "x < 256" "y < 256" "z < 256"
  shows "x div 4 < 64" "(x mod 4) * 16 + y div 16 < 64" "(y mod 16) * 4 + z div 64 < 64"
    "z mod 64 < 64" "(x mod 4) * 16 < 64" "(y mod 16) * 4 < 64"
  using assms by simp_all

lemma small_div:
  fixes v :: nat
  assumes "v < 256"
  shows "v div 16 div 16 = 0" "v div 64 div 4 = 0" "v div 16 mod 16 = v div 16"
    "v div 64 mod 4 = v div 64"
  using assms by simp_all

lemma a2b_b64encode: "a2b_base64 (b64encode bs) 0 0 0 out = Some (out @ bs)"
proof (induction bs arbitrary: out rule: b64encode.induct)
  case (1 a b c rest)
  have lt: "(of_char a :: nat) < 256" "(of_char b :: nat) < 256" "(of_char c :: nat) < 256"
    by simp_all
  show ?case
    by (simp add: a2b_step sextets[OF lt] small_div[OF lt(2)] small_div[OF lt(3)] "1.IH"
        del: a2b_base64.simps)
next
  case (2 a b)
  have lt: "(of_char a :: nat) < 256" "(of_char b :: nat) < 256"
    by simp_all
  have s: "of_char a div 4 < (64::nat)" "(of_char a mod 4) * 16 + of_char b div 16 < (64::nat)"
    "(of_char b mod 16) * 4 < (64::nat)"
    using sextets[OF lt lt(1)] by simp_all
  have "a2b_base64 (b64encode [a, b]) 0 0 0 out
        = a2b_base64 [CHR ''=''] 3 ((of_char b mod 16) * 4 mod 4) 0 (out @ [a, b])"
    by (simp add: a2b_step s small_div[OF lt(2)] del: a2b_base64.simps)
  then show ?case by simp
next
  case (3 a)
  have lt: "(of_char a :: nat) < 256"
    by simp
  have s: "of_char a div 4 < (64::nat)" "(of_char a mod 4) * 16 < (64::nat)"
    using sextets[OF lt lt lt] by simp_all
  have "a2b_base64 (b64encode [a]) 0 0 0 out
        = a2b_base64 [CHR ''='', CHR ''=''] 2 ((of_char a mod 4) * 16 mod 16) 0 (out @ [a])"
    by (simp add: a2b_step s del: a2b_base64.simps)
  then show ?case by simp
next
  case 4
  show ?case by simp
qed

lemma b64encode_ascii: "c \<in> set (b64encode bs) \<Longrightarrow> (of_char c :: nat) < 128"
proof (induction bs rule: b64encode.induct)
  case (1 a b c' rest)
  have lt: "(of_char a :: nat) < 256" "(of_char b :: nat) < 256" "(of_char c' :: nat) < 256"
    by simp_all
  show ?case
    using "1.prems" "1.IH" sextets[OF lt] by (auto simp: b64_char_ascii)
next
  case (2 a b)
  have lt: "(of_char a :: nat) < 256" "(of_char b :: nat) < 256"
    by simp_all
  show ?case
    using "2.prems" sextets[OF lt lt(1)] by (auto simp: b64_char_ascii)
next
  case (3 a)
  have lt: "(of_char a :: nat) < 256"
    by simp
  show ?case
    using "3.prems" sextets[OF lt lt lt] by (auto simp: b64_char_ascii)
next
  case 4
  then show ?case by simp
qed

lemma b64decode_b64encode: "b64decode (b64encode bs) = Some bs"
  using b64encode_ascii [of _ bs] a2b_b64encode [of bs "[]"]
  by (auto simp: b64decode_def not_le list_ex_iff)


lemma hex_val_digit: "n < 16 \<Longrightarrow> hex_val (hex_digit n) = Some n"
  by (auto simp: hex_val_def hex_digit_def Let_def)

lemma hex_val_zero: "hex_val CHR ''0'' = Some 0"
  by (simp add: hex_val_def)

lemma hex4_escape:
  fixes v :: nat
  assumes "v < 256"
  shows "hex4 CHR ''0'' CHR ''0'' (hex_digit (v div 16)) (hex_digit (v mod 16)) = Some v"
proof -
  have "v div 16 < 16" "v mod 16 < 16"
    using assms by simp_all
  then show ?thesis
    by (simp add: hex4_def hex_val_zero hex_val_digit)
qed

lemma scanstring_escape_char:
  "scanstring (escape_char c @ rest) = cons_str c (scanstring rest)"
proof -
  have lt: "(of_char c :: nat) < 256"
    by simp
  consider (quote) "c = CHR 0x22" | (bslash) "c = CHR 0x5C" | (nl) "c = CHR 0x0A"
    | (cr) "c = CHR 0x0D" | (tab) "c = CHR 0x09" | (bs) "c = CHR 0x08" | (ff) "c = CHR 0x0C"
    | (plain) "c \<noteq> CHR 0x22" "c \<noteq> CHR 0x5C" "32 \<le> (of_char c :: nat)" "(of_char c :: nat) \<le> 126"
    | (other) "c \<noteq> CHR 0x22" "c \<noteq> CHR 0x5C" "c \<noteq> CHR 0x0A" "c \<noteq> CHR 0x0D" "c \<noteq> CHR 0x09"
        "c \<noteq> CHR 0x08" "c \<noteq> CHR 0x0C" "\<not> (32 \<le> (of_char c :: nat) \<and> (of_char c :: nat) \<le> 126)"
    by blast
  then show ?thesis
  proof cases
    case plain
    then show ?thesis
      by (auto simp: escape_char_def)
  next
    case other
    then show ?thesis
      by (simp add: escape_char_def hex4_escape[OF lt])
  qed (simp_all add: escape_char_def unescape_def)
qed

lemma scanstring_dumps:
  "scanstring (concat (map escape_char s) @ CHR 0x22 # rest) = Some (s, rest)"
  by (induction s) (simp_all add: scanstring_escape_char cons_str_def)

lemma skip_ws_simps:
  "\<not> is_ws c \<Longrightarrow> skip_ws (c # s) = c # s"
  "skip_ws (CHR '' '' # s) = skip_ws s"
  "skip_ws [] = []"
  by (simp_all add: skip_ws_def is_ws_def)

lemma not_ws:
  "\<not> is_ws (CHR 0x22)" "\<not> is_ws CHR '':''" "\<not> is_ws CHR '',''" "\<not> is_ws CHR ''}''"
  "\<not> is_ws CHR ''{''"
  by (simp_all add: is_ws_def)

lemma dumps_members_Cons:
  "dumps_members ((k, v) # ms) =
     CHR 0x22 # (concat (map escape_char k) @ CHR 0x22 # '': '' @
       CHR 0x22 # (concat (map escape_char v) @ CHR 0x22 #
         (case ms of [] \<Rightarrow> [] | m # ms' \<Rightarrow> '', '' @ dumps_members (m # ms'))))"
  by (cases ms) (auto simp: dumps_str_def)

lemma parse_value_str:
  "parse_value (Suc n) (CHR 0x22 # concat (map escape_char v) @ CHR 0x22 # rest)
     = Some (JStr v, rest)"
  by (simp add: scanstring_dumps)

lemma parse_members_step:
  "parse_members (Suc (Suc n))
     (concat (map escape_char k) @ CHR 0x22 # '': '' @
        CHR 0x22 # (concat (map escape_char v) @ CHR 0x22 # tail)) =
     (case skip_ws tail of
        [] \<Rightarrow> None
      | d2 # r3 \<Rightarrow>
          if d2 = CHR ''}'' then Some ([(k, JStr v)], r3)
          else if d2 = CHR '','' then
            (case skip_ws r3 of
               [] \<Rightarrow> None
             | q # r4 \<Rightarrow>
                 if q = CHR 0x22 then
                   (case parse_members (Suc n) r4 of
                      None \<Rightarrow> None
                    | Some (ms, r5) \<Rightarrow> Some ((k, JStr v) # ms, r5))
                 else None)
          else None)"
  apply (subst parse_members.simps)
  apply (simp only: scanstring_dumps option.case prod.case)
  apply (simp add: skip_ws_simps not_ws parse_value_str
      del: parse_value.simps parse_members.simps)
  done

lemma parse_members_dumps:
  "length ms + 2 \<le> f \<Longrightarrow>
   parse_members f (tl (dumps_members ((k, v) # ms)) @ CHR ''}'' # rest)
     = Some (map (\<lambda>(k, v). (k, JStr v)) ((k, v) # ms), rest)"
proof (induction ms arbitrary: k v f)
  case Nil
  define n where "n = f - 2"
  have f: "f = Suc (Suc n)"
    using Nil.prems by (simp add: n_def)
  have "parse_members (Suc (Suc n)) (tl (dumps_members [(k, v)]) @ CHR ''}'' # rest)
          = Some ([(k, JStr v)], rest)"
    using parse_members_step [of n k v "CHR ''}'' # rest"]
    by (simp add: dumps_str_def skip_ws_simps not_ws
        del: parse_value.simps parse_members.simps)
  then show ?case
    by (simp add: f del: parse_value.simps parse_members.simps)
next
  case (Cons m ms)
  obtain k' v' where m: "m = (k', v')"
    by (cases m)
  define n where "n = f - 2"
  have f: "f = Suc (Suc n)" and n: "length ms + 2 \<le> Suc n"
    using Cons.prems by (simp_all add: n_def)
  have IH: "parse_members (Suc n) (tl (dumps_members ((k', v') # ms)) @ CHR ''}'' # rest)
     = Some (map (\<lambda>(k, v). (k, JStr v)) ((k', v') # ms), rest)"
    using Cons.IH [OF n] .
  have hd_eq: "dumps_members ((k', v') # ms) = CHR 0x22 # tl (dumps_members ((k', v') # ms))"
    by (simp add: dumps_members_Cons)
  have tl_eq: "tl (dumps_members ((k, v) # (k', v') # ms)) @ CHR ''}'' # rest =
      concat (map escape_char k) @ CHR 0x22 # '': '' @
        CHR 0x22 # (concat (map escape_char v) @ CHR 0x22 #
          ('', '' @ CHR 0x22 # (tl (dumps_members ((k', v') # ms)) @ CHR ''}'' # rest)))"
    apply (subst dumps_members.simps(3))
    apply (subst hd_eq)
    apply (simp add: dumps_str_def del: dumps_members.simps)
    done
  show ?case
    apply (simp only: f m tl_eq)
    apply (subst parse_members_step)
    apply (simp add: skip_ws_simps not_ws IH
        del: parse_value.simps parse_members.simps dumps_members.simps)
    done
qed

lemma length_dumps_members: "length d \<le> length (dumps_members d)"
  by (induction d rule: dumps_members.induct) (simp_all add: dumps_str_def)

lemma fold_update_distinct:
  "distinct (map fst (acc @ ps)) \<Longrightarrow>
   fold (\<lambda>(k, v). AList.update k v) ps acc = acc @ ps"
proof (induction ps arbitrary: acc)
  case Nil
  then show ?case by simp
next
  case (Cons p ps)
  obtain k v where p: "p = (k, v)"
    by (cases p)
  have absent: "k \<notin> fst ` set acc"
    using Cons.prems by (auto simp: p)
  have upd: "AList.update k v acc = acc @ [(k, v)]"
    using absent by (induction acc) auto
  have "distinct (map fst ((acc @ [(k, v)]) @ ps))"
    using Cons.prems by (simp add: p)
  from Cons.IH [OF this] show ?case
    by (simp add: p upd)
qed

lemma dict_of_distinct: "distinct (map fst ps) \<Longrightarrow> dict_of ps = ps"
  using fold_update_distinct [of "[]" ps] by (simp add: dict_of_def)

lemma map_fst_JStr: "map fst (map (\<lambda>(k, v). (k, JStr v)) d) = map fst d"
  by (induction d) auto

lemma json_loads_json_dumps:
  assumes "distinct (map fst d)"
  shows "json_loads (json_dumps d) = Some (JObj (map (\<lambda>(k, v). (k, JStr v)) d))"
proof (cases d)
  case Nil
  then show ?thesis
    by (simp add: json_loads_def json_dumps_def skip_ws_simps not_ws)
next
  case (Cons p ms)
  obtain k v where p: "p = (k, v)"
    by (cases p)
  define n where "n = length (json_dumps d)"
  have n: "length ms + 2 \<le> n"
    using length_dumps_members [of d] by (simp add: n_def json_dumps_def Cons)
  have hd_eq: "dumps_members ((k, v) # ms) = CHR 0x22 # tl (dumps_members ((k, v) # ms))"
    by (simp add: dumps_members_Cons)
  have doc: "json_dumps d = CHR ''{'' # CHR 0x22 # (tl (dumps_members ((k, v) # ms)) @ CHR ''}'' # [])"
    apply (simp only: json_dumps_def Cons p)
    apply (subst hd_eq)
    apply simp
    done
  have dict0: "dict_of (map (\<lambda>(k, v). (k, JStr v)) d) = map (\<lambda>(k, v). (k, JStr v)) d"
    by (rule dict_of_distinct) (simp only: map_fst_JStr assms)
  have dict: "dict_of ((k, JStr v) # map (\<lambda>(k, v). (k, JStr v)) ms)
      = map (\<lambda>(k, v). (k, JStr v)) d"
    using dict0 by (simp add: Cons p)
  have "parse_value (Suc n) (skip_ws (json_dumps d))
          = Some (JObj (map (\<lambda>(k, v). (k, JStr v)) d), [])"
    apply (simp only: doc)
    apply (simp only: skip_ws_simps(1) [OF not_ws(5)])
    apply (subst parse_value.simps)
    apply (simp add: skip_ws_simps not_ws parse_members_dumps [OF n] dict
        del: parse_value.simps parse_members.simps)
    done
  then show ?thesis
    by (simp add: json_loads_def n_def skip_ws_simps del: parse_value.simps)
qed

lemma div16: "v < 256 \<Longrightarrow> (v :: nat) div 16 < 16"
  by arith

lemma hex_digit_ascii: "n < 16 \<Longrightarrow> (of_char (hex_digit n) :: nat) < 128"
  by (simp add: hex_digit_def)

lemma escape_char_ascii: "c' \<in> set (escape_char c) \<Longrightarrow> (of_char c' :: nat) < 128"
proof -
  have lt: "(of_char c :: nat) < 256"
    by simp
  have "(of_char c :: nat) div 16 < 16" "(of_char c :: nat) mod 16 < 16"
    by (rule div16) simp_all
  then have "(of_char (hex_digit (of_char c div 16)) :: nat) < 128"
    "(of_char (hex_digit (of_char c mod 16)) :: nat) < 128"
    by (simp_all only: hex_digit_ascii)
  then show "c' \<in> set (escape_char c) \<Longrightarrow> (of_char c' :: nat) < 128"
    by (auto simp: escape_char_def split: if_splits)
qed

lemma dumps_str_ascii: "c \<in> set (dumps_str s) \<Longrightarrow> (of_char c :: nat) < 128"
  by (auto simp: dumps_str_def dest: escape_char_ascii)

lemma dumps_members_ascii: "c \<in> set (dumps_members d) \<Longrightarrow> (of_char c :: nat) < 128"
  by (induction d rule: dumps_members.induct) (auto dest: dumps_str_ascii)

lemma json_dumps_ascii: "c \<in> set (json_dumps d) \<Longrightarrow> (of_char c :: nat) < 128"
  by (auto simp: json_dumps_def dest: dumps_members_ascii)

lemma utf8_decode_ascii: "(\<And>c. c \<in> set s \<Longrightarrow> (of_char c :: nat) < 128) \<Longrightarrow> utf8_decode s = Some s"
  by (induction s) simp_all

lemma decode_token_encode_token:
  "distinct (map fst d) \<Longrightarrow>
   decode_token (encode_token d) = Some (JObj (map (\<lambda>(k, v). (k, JStr v)) d))"
  by (simp add: decode_token_def encode_token_def b64decode_b64encode
      utf8_decode_ascii [OF json_dumps_ascii] json_loads_json_dumps)

lemma new_ListImagesRequest_accepts:
  assumes "validate_date e sd" and "validate_date e ed" and "1 \<le> lim" and "lim \<le> 100"
  shows "new_ListImagesRequest e uid sd ed lim token =
           Inr \<lparr> lr_user_id = uid, lr_start_date = sd, lr_end_date = ed, lr_limit = lim,
                 lr_next_token = token \<rparr>"
  using assms by (simp add: new_ListImagesRequest_def)

lemma query_based_on_filters_scan:
  "falsy uid \<Longrightarrow>
   query_based_on_filters e w
     \<lparr> lr_user_id = uid, lr_start_date = sd, lr_end_date = ed, lr_limit = lim, lr_next_token = token \<rparr> lk
     = scan_all e w lim lk"
  by (simp add: query_based_on_filters_def)

lemma list_images_handler_scan:
  assumes "falsy (q_user_id qp)"
    and "validate_date e (q_start_date qp)" and "validate_date e (q_end_date qp)"
    and "limit_of qp = l" and "q_next_token qp = t"
  shows "list_images_handler e qp w =
     (case l of
        Inl x \<Rightarrow> (list_failed x, w)
      | Inr lim \<Rightarrow>
          if 1 \<le> lim \<and> lim \<le> 100 then
            (case (if falsy t then Some JNull else decode_token (the t)) of
               None \<Rightarrow> (validation_error_response ''Invalid pagination token'' None, w)
             | Some lk \<Rightarrow>
                 (case scan_all e w lim lk of
                    Inl x \<Rightarrow> (list_failed x, w)
                  | Inr (images, next_key) \<Rightarrow>
                      (success_response
                         (ListImagesResponse images (length images)
                            (encode_next_token next_key) (next_key \<noteq> None))
                         200, w)))
          else (validation_error_response ''Invalid request parameters'' (Some [''limit'']), w))"
  using assms
  by (simp add: list_images_handler_def new_ListImagesRequest_def decode_pagination_token_def
      query_based_on_filters_def split: sum.split option.split)

lemma images_of_items_Inr:
  "images_of_items its = Inr ms \<Longrightarrow> list_all2 (\<lambda>it m. ImageMetadata_of_item it = Inr m) its ms"
  by (induction its arbitrary: ms) (auto split: sum.splits)

lemma missing_Nil: "missing err v = [] \<longleftrightarrow> v \<noteq> None"
  by (cases v) (simp_all add: missing_def)

lemma ImageMetadata_of_item_keys:
  assumes "ImageMetadata_of_item it = Inr m"
  shows "item_str it ''user_id'' = Some (user_id m)"
    and "item_str it ''upload_timestamp'' = Some (upload_timestamp m)"
  using assms
  by (auto simp: ImageMetadata_of_item_def Let_def missing_Nil str_missing_def split: if_splits)

lemma index_partition_member:
  "((t, iid), it) \<in> set (index_partition w uid) \<longleftrightarrow>
     (iid, it) \<in> set (rows w) \<and> item_str it ''user_id'' = Some uid
     \<and> item_str it ''upload_timestamp'' = Some t"
  by (auto simp: index_partition_def image_iff)

lemma rows_member: "(iid, it) \<in> set (rows w) \<longleftrightarrow> map_of (table w) iid = Some it"
proof
  assume "(iid, it) \<in> set (rows w)"
  then have "map_of (AList.clearjunk (table w)) iid = Some it"
    unfolding rows_def by (intro map_of_is_SomeI distinct_clearjunk)
  then show "map_of (table w) iid = Some it"
    by (simp add: map_of_clearjunk)
next
  assume "map_of (table w) iid = Some it"
  then have "map_of (AList.clearjunk (table w)) iid = Some it"
    by (simp add: map_of_clearjunk)
  then show "(iid, it) \<in> set (rows w)"
    unfolding rows_def by (rule map_of_SomeD)
qed

lemma in_range_key_condition_of:
  "in_range (key_condition_of start_date end_date) t \<longleftrightarrow>
     (\<not> falsy start_date \<longrightarrow> the start_date \<le> t) \<and> (\<not> falsy end_date \<longrightarrow> t \<le> the end_date)"
  by (simp add: key_condition_of_def)

lemma descending_sort_key:
  fixes xs :: "((string \<times> string) \<times> 'a) list"
  shows "sorted_wrt (\<lambda>a b. fst (fst b) \<le> fst (fst a)) (rev (sort_key fst xs))"
proof -
  have "sorted (map fst (sort_key fst xs))"
    by (rule sorted_sort_key)
  then have "sorted_wrt (\<lambda>a b. fst a \<le> fst b) (sort_key fst xs)"
    by (simp add: sorted_wrt_map)
  then have "sorted_wrt (\<lambda>a b. fst (fst a) \<le> fst (fst b)) (sort_key fst xs)"
    by (rule sorted_wrt_mono_rel [rotated]) (auto simp: less_eq_prod_def)
  then show ?thesis
    by (simp add: sorted_wrt_rev)
qed

lemma table_query_page:
  assumes "table_query e w uid cond lim esk = Inr (its, nk)"
  shows "\<exists>page. its = map snd page
           \<and> set page \<subseteq> {p \<in> set (index_partition w uid). in_range cond (fst (fst p))}
           \<and> sorted_wrt (\<lambda>a b. fst (fst b) \<le> fst (fst a)) page
           \<and> length page \<le> nat lim
           \<and> (esk = None \<and> nk = None \<longrightarrow>
                set page = {p \<in> set (index_partition w uid). in_range cond (fst (fst p))})"
proof -
  define matching where
    "matching = filter (\<lambda>(k, it). in_range cond (fst k)) (index_partition w uid)"
  define ordered where "ordered = rev (sort_key fst matching)"
  have set_ordered: "set ordered = {p \<in> set (index_partition w uid). in_range cond (fst (fst p))}"
    by (auto simp: ordered_def matching_def)
  have sorted_ordered: "sorted_wrt (\<lambda>a b. fst (fst b) \<le> fst (fst a)) ordered"
    unfolding ordered_def by (rule descending_sort_key)
  from assms obtain start where
    start: "exclusive_start_key ''Query'' [''image_id'', ''user_id'', ''upload_timestamp''] esk = Inr start"
    by (auto simp: table_query_def split: option.splits if_splits sum.splits)
  define rest where
    "rest = (case start of
               None \<Rightarrow> ordered
             | Some ms \<Rightarrow>
                 filter (\<lambda>(k, it). k < (the (str_member ms ''upload_timestamp''),
                                        the (str_member ms ''image_id'')))
                   ordered)"
  have its: "its = map snd (take (nat lim) rest)"
    and nk: "nk = None \<longleftrightarrow> \<not> nat lim \<le> length rest"
    using assms start
    by (auto simp: table_query_def Let_def rest_def ordered_def matching_def
        split: option.splits if_splits)
  have set_rest: "set rest \<subseteq> set ordered"
    by (auto simp: rest_def split: option.splits)
  have sorted_rest: "sorted_wrt (\<lambda>a b. fst (fst b) \<le> fst (fst a)) rest"
    using sorted_ordered by (auto simp: rest_def sorted_wrt_filter split: option.splits)
  have start_None: "start = None" if "esk = None"
    using start that by (simp add: exclusive_start_key_def)
  show ?thesis
  proof (intro exI [of _ "take (nat lim) rest"] conjI impI)
    show "its = map snd (take (nat lim) rest)"
      by (rule its)
    show "set (take (nat lim) rest) \<subseteq> {p \<in> set (index_partition w uid). in_range cond (fst (fst p))}"
      using set_take_subset [of "nat lim" rest] set_rest set_ordered by blast
    show "sorted_wrt (\<lambda>a b. fst (fst b) \<le> fst (fst a)) (take (nat lim) rest)"
      using sorted_rest by (rule sorted_wrt_take)
    show "length (take (nat lim) rest) \<le> nat lim"
      by simp
    show "set (take (nat lim) rest) = {p \<in> set (index_partition w uid). in_range cond (fst (fst p))}"
      if "esk = None \<and> nk = None"
    proof -
      have "rest = ordered"
        using that start_None by (simp add: rest_def)
      moreover have "take (nat lim) rest = rest"
        using that nk by simp
      ultimately show ?thesis
        using set_ordered by simp
    qed
  qed
qed

lemma album_query:
  "query_by_user plain_env album ''u1'' (Some ''2026-01-11'') (Some ''2026-01-12'') 50 JNull
     = Inr ([photo_of ''p3'' ''u1'' ''2026-01-12'', photo_of ''p2'' ''u1'' ''2026-01-11''], None)"
  by code_simp

lemma album_dates:
  "validate_date plain_env (Some ''2026-01-11'')" "validate_date plain_env (Some ''2026-01-12'')"
  "validate_date plain_env None"
  by code_simp+

lemma album_scan:
  "list_images_handler plain_env (list_query_of None None None None) album
     = (success_response
          (ListImagesResponse
             [photo_of ''p1'' ''u1'' ''2026-01-10'', photo_of ''p2'' ''u1'' ''2026-01-11'',
              photo_of ''p3'' ''u1'' ''2026-01-12'', photo_of ''q1'' ''u2'' ''2026-01-11'']
             4 None False) 200, album)"
  by code_simp

lemma decode_token_encode_key:
  "distinct (map fst k) \<Longrightarrow> decode_token (encode_token k) = Some (json_of_key k)"
  by (simp add: decode_token_encode_token json_of_key_def)

lemma table_query_key:
  assumes "table_query e w uid cond lim esk = Inr (its, Some k)"
  shows "k \<noteq> [] \<and> distinct (map fst k)"
  using assms
  by (auto simp: table_query_def Let_def split: option.splits if_splits sum.splits)

lemma table_scan_key:
  assumes "table_scan e w lim esk = Inr (its, Some k)"
  shows "k \<noteq> [] \<and> distinct (map fst k)"
  using assms
  by (auto simp: table_scan_def Let_def split: option.splits if_splits sum.splits)

lemma query_based_on_filters_key:
  assumes "query_based_on_filters e w request lk = Inr (images, Some k)"
  shows "k \<noteq> [] \<and> distinct (map fst k)"
proof (cases "falsy (lr_user_id request)")
  case True
  with assms obtain its where "table_scan e w (lr_limit request)
      (if truthy lk then Some lk else None) = Inr (its, Some k)"
    by (auto simp: query_based_on_filters_def scan_all_def split: sum.splits prod.splits)
  then show ?thesis
    by (rule table_scan_key)
next
  case False
  with assms obtain its where "table_query e w (the (lr_user_id request))
      (key_condition_of (lr_start_date request) (lr_end_date request)) (lr_limit request)
      (if truthy lk then Some lk else None) = Inr (its, Some k)"
    by (auto simp: query_based_on_filters_def query_by_user_def split: sum.splits prod.splits)
  then show ?thesis
    by (rule table_query_key)
qed

lemma album_first_page:
  "limit_of (page_query (Some ''u1'') None) = Inr 2"
  "new_ListImagesRequest plain_env (q_user_id (page_query (Some ''u1'') None))
     (q_start_date (page_query (Some ''u1'') None)) (q_end_date (page_query (Some ''u1'') None)) 2
     (q_next_token (page_query (Some ''u1'') None)) = Inr \<lparr> lr_user_id = Some ''u1'', lr_start_date = None, lr_end_date = None, lr_limit = 2, lr_next_token = None \<rparr>"
  "decode_pagination_token \<lparr> lr_user_id = Some ''u1'', lr_start_date = None, lr_end_date = None, lr_limit = 2, lr_next_token = None \<rparr> = Some JNull"
  "query_based_on_filters plain_env album \<lparr> lr_user_id = Some ''u1'', lr_start_date = None, lr_end_date = None, lr_limit = 2, lr_next_token = None \<rparr> JNull = Inr ([photo_of ''p3'' ''u1'' ''2026-01-12'', photo_of ''p2'' ''u1'' ''2026-01-11''], Some [(''image_id'', ''p2''), (''user_id'', ''u1''), (''upload_timestamp'', ''2026-01-11'')])"
  by code_simp+

lemma album_token: "encode_token [(''image_id'', ''p2''), (''user_id'', ''u1''), (''upload_timestamp'', ''2026-01-11'')] = ''eyJpbWFnZV9pZCI6ICJwMiIsICJ1c2VyX2lkIjogInUxIiwgInVwbG9hZF90aW1lc3RhbXAiOiAiMjAyNi0wMS0xMSJ9''"
  by code_simp

lemma album_second_page:
  "list_images_handler plain_env (page_query (Some ''u1'') (Some ''eyJpbWFnZV9pZCI6ICJwMiIsICJ1c2VyX2lkIjogInUxIiwgInVwbG9hZF90aW1lc3RhbXAiOiAiMjAyNi0wMS0xMSJ9'')) album
     = (success_response (ListImagesResponse [photo_of ''p1'' ''u1'' ''2026-01-10''] 1 None False) 200, album)"
  by code_simp



subsection \<open>The storage key in the two flows\<close>

text \<open>
  Claim C1. The storage key recomputed by the complete-upload flow is meant to equal the key
  derived when the credential was issued. The issue flow sanitizes the file name before it
  builds the key; the complete flow builds the key from the file name as sent. For the file
  name \<^verbatim>\<open>my photo.jpg\<close> the credential is issued for \<^verbatim>\<open>images/u1/id1_my_photo.jpg\<close>, and
  with the object stored under exactly that key, the complete flow looks under
  \<^verbatim>\<open>images/u1/id1_my photo.jpg\<close>, answers NotFound and persists nothing.
\<close>

theorem complete_misses_issued_key:
  "fst (upload_presigned_url_handler plain_env ''id1''
          (Inr (photo_upload_body ''my photo.jpg'' ''image/jpeg'' 2048))
          \<lparr>table = [], objects = []\<rparr>)
     = success_response
         (PresignedUrlResponse ''id1'' ''https://bucket.s3.amazonaws.com/''
            [(''Content-Type'', ''image/jpeg''), (''key'', ''images/u1/id1_my_photo.jpg'')] 3600
            ''images/u1/id1_my_photo.jpg'') 200
   \<and> complete_s3_key (photo_complete_request ''my photo.jpg'') = ''images/u1/id1_my photo.jpg''
   \<and> complete_upload_handler plain_env ''2026-02-13T10:00:00'' ''2026-02-13T10:00:01''
         (Inr (photo_complete_body ''my photo.jpg''))
         (bucket_with ''images/u1/id1_my_photo.jpg'' ''image/jpeg'')
     = (not_found_response ''Image not uploaded to S3. Please upload the file first.'',
        bucket_with ''images/u1/id1_my_photo.jpg'' ''image/jpeg'')"
  by (simp add: upload_presigned_url_handler_def complete_upload_handler_def photo_upload_request
      new_photo_complete_request photo_complete_request_def upload_s3_key_def complete_s3_key_def
      sanitize_photo generate_presigned_post_def check_object_exists_def head_object_def
      plain_env_def bucket_with_def Let_def)

subsection \<open>Validation of the issue-upload request\<close>

text \<open>
  Claim C9. The issue-upload request is accepted exactly when \<open>user_id\<close> and \<open>filename\<close> are
  non-empty strings, the content type is one of the five image types, the file size lies
  between 1 and 10485760, and the description, when given, has at most 500 characters. So
  with the other fields valid, a file size is accepted exactly when it lies in that range and a
  content type exactly when it is on the list. Every request that is not accepted is answered
  with status 400 and the error kind ValidationError, and the backends stay as they were.
  Every request that is accepted goes on to the signing of the credential: the answer has
  status 200 and carries the credential for the derived key, unless the signing itself fails,
  which is answered with status 500; it is never answered with status 400.
\<close>

theorem upload_validation_boundaries:
  "((\<exists>r. new_UploadPresignedUrlRequest b = Inr r) \<longleftrightarrow>
      (\<exists>s. ub_user_id b = Some s \<and> s \<noteq> []) \<and> (\<exists>s. ub_filename b = Some s \<and> s \<noteq> [])
      \<and> (\<exists>s. ub_content_type b = Some s
               \<and> s \<in> {''image/jpeg'', ''image/png'', ''image/gif'', ''image/webp'', ''image/bmp''})
      \<and> (\<exists>n. ub_file_size b = Some n \<and> 1 \<le> n \<and> n \<le> 10485760)
      \<and> (\<forall>s. ub_description b = Some s \<longrightarrow> length s \<le> 500))
   \<and> ((\<forall>r. new_UploadPresignedUrlRequest b \<noteq> Inr r) \<longrightarrow>
        statusCode (fst (upload_presigned_url_handler e uuid4 (Inr b) w)) = 400
        \<and> (\<exists>errs. body (fst (upload_presigned_url_handler e uuid4 (Inr b) w)) =
                     ErrorBody ''ValidationError'' ''Invalid request data'' (Some errs))
        \<and> snd (upload_presigned_url_handler e uuid4 (Inr b) w) = w)
   \<and> (\<forall>r. new_UploadPresignedUrlRequest b = Inr r \<longrightarrow>
        statusCode (fst (upload_presigned_url_handler e uuid4 (Inr b) w)) =
          (case presigned_post_fault e of None \<Rightarrow> 200 | Some x \<Rightarrow> 500)
        \<and> body (fst (upload_presigned_url_handler e uuid4 (Inr b) w)) =
          (case presigned_post_fault e of
             None \<Rightarrow>
               PresignedUrlResponse uuid4
                 (fst (sign_post e (upload_s3_key r uuid4) (ur_content_type r) (ur_file_size r)
                         (S3_PRESIGNED_URL_EXPIRY_UPLOAD e)))
                 (snd (sign_post e (upload_s3_key r uuid4) (ur_content_type r) (ur_file_size r)
                         (S3_PRESIGNED_URL_EXPIRY_UPLOAD e)))
                 (S3_PRESIGNED_URL_EXPIRY_UPLOAD e) (upload_s3_key r uuid4)
           | Some x \<Rightarrow>
               ErrorBody ''InternalError'' (''Failed to generate upload URL: '' @ str_exn x) None)
        \<and> snd (upload_presigned_url_handler e uuid4 (Inr b) w) = w)"
proof (intro conjI)
  show "(\<exists>r. new_UploadPresignedUrlRequest b = Inr r) \<longleftrightarrow>
      (\<exists>s. ub_user_id b = Some s \<and> s \<noteq> []) \<and> (\<exists>s. ub_filename b = Some s \<and> s \<noteq> [])
      \<and> (\<exists>s. ub_content_type b = Some s
               \<and> s \<in> {''image/jpeg'', ''image/png'', ''image/gif'', ''image/webp'', ''image/bmp''})
      \<and> (\<exists>n. ub_file_size b = Some n \<and> 1 \<le> n \<and> n \<le> 10485760)
      \<and> (\<forall>s. ub_description b = Some s \<longrightarrow> length s \<le> 500)"
    unfolding new_UploadPresignedUrlRequest_accepts validate_content_type_def by simp
next
  show "(\<forall>r. new_UploadPresignedUrlRequest b \<noteq> Inr r) \<longrightarrow>
        statusCode (fst (upload_presigned_url_handler e uuid4 (Inr b) w)) = 400
        \<and> (\<exists>errs. body (fst (upload_presigned_url_handler e uuid4 (Inr b) w)) =
                     ErrorBody ''ValidationError'' ''Invalid request data'' (Some errs))
        \<and> snd (upload_presigned_url_handler e uuid4 (Inr b) w) = w"
    by (cases "new_UploadPresignedUrlRequest b")
      (simp_all add: upload_presigned_url_handler_def validation_error_response_def
        error_response_def create_response_def)
next
  show "\<forall>r. new_UploadPresignedUrlRequest b = Inr r \<longrightarrow>
        statusCode (fst (upload_presigned_url_handler e uuid4 (Inr b) w)) =
          (case presigned_post_fault e of None \<Rightarrow> 200 | Some x \<Rightarrow> 500)
        \<and> body (fst (upload_presigned_url_handler e uuid4 (Inr b) w)) =
          (case presigned_post_fault e of
             None \<Rightarrow>
               PresignedUrlResponse uuid4
                 (fst (sign_post e (upload_s3_key r uuid4) (ur_content_type r) (ur_file_size r)
                         (S3_PRESIGNED_URL_EXPIRY_UPLOAD e)))
                 (snd (sign_post e (upload_s3_key r uuid4) (ur_content_type r) (ur_file_size r)
                         (S3_PRESIGNED_URL_EXPIRY_UPLOAD e)))
                 (S3_PRESIGNED_URL_EXPIRY_UPLOAD e) (upload_s3_key r uuid4)
           | Some x \<Rightarrow>
               ErrorBody ''InternalError'' (''Failed to generate upload URL: '' @ str_exn x) None)
        \<and> snd (upload_presigned_url_handler e uuid4 (Inr b) w) = w"
    by (cases "presigned_post_fault e")
      (simp_all add: upload_presigned_url_handler_def generate_presigned_post_def Let_def
        upload_failed_def internal_error_response_def success_response_def error_response_def
        create_response_def split: prod.split)
qed

text \<open>
  The boundary cases: the sizes 0 and 10485761 and the type \<^verbatim>\<open>image/svg+xml\<close> are rejected
  with status 400; the sizes 1 and 10485760 are accepted and answered with status 200.
\<close>

theorem upload_validation_boundaries_witness:
  "(\<forall>r. new_UploadPresignedUrlRequest (photo_upload_body ''a.jpg'' ''image/jpeg'' 0) \<noteq> Inr r)
   \<and> statusCode (fst (upload_presigned_url_handler plain_env ''id1''
         (Inr (photo_upload_body ''a.jpg'' ''image/jpeg'' 0)) \<lparr>table = [], objects = []\<rparr>)) = 400
   \<and> (\<forall>r. new_UploadPresignedUrlRequest (photo_upload_body ''a.jpg'' ''image/jpeg'' 10485761) \<noteq> Inr r)
   \<and> statusCode (fst (upload_presigned_url_handler plain_env ''id1''
         (Inr (photo_upload_body ''a.jpg'' ''image/jpeg'' 10485761)) \<lparr>table = [], objects = []\<rparr>)) = 400
   \<and> (\<forall>r. new_UploadPresignedUrlRequest (photo_upload_body ''a.svg'' ''image/svg+xml'' 2048) \<noteq> Inr r)
   \<and> statusCode (fst (upload_presigned_url_handler plain_env ''id1''
         (Inr (photo_upload_body ''a.svg'' ''image/svg+xml'' 2048)) \<lparr>table = [], objects = []\<rparr>)) = 400
   \<and> (\<exists>r. new_UploadPresignedUrlRequest (photo_upload_body ''a.jpg'' ''image/jpeg'' 10485760) = Inr r)
   \<and> statusCode (fst (upload_presigned_url_handler plain_env ''id1''
         (Inr (photo_upload_body ''a.jpg'' ''image/jpeg'' 10485760)) \<lparr>table = [], objects = []\<rparr>)) = 200
   \<and> (\<exists>r. new_UploadPresignedUrlRequest (photo_upload_body ''a.jpg'' ''image/jpeg'' 1) = Inr r)
   \<and> statusCode (fst (upload_presigned_url_handler plain_env ''id1''
         (Inr (photo_upload_body ''a.jpg'' ''image/jpeg'' 1)) \<lparr>table = [], objects = []\<rparr>)) = 200"
proof -
  note at_zero = upload_validation_boundaries
      [of "photo_upload_body ''a.jpg'' ''image/jpeg'' 0" plain_env "''id1''" "\<lparr>table = [], objects = []\<rparr>"]
  note at_over = upload_validation_boundaries
      [of "photo_upload_body ''a.jpg'' ''image/jpeg'' 10485761" plain_env "''id1''" "\<lparr>table = [], objects = []\<rparr>"]
  note at_svg = upload_validation_boundaries
      [of "photo_upload_body ''a.svg'' ''image/svg+xml'' 2048" plain_env "''id1''" "\<lparr>table = [], objects = []\<rparr>"]
  note at_top = upload_validation_boundaries
      [of "photo_upload_body ''a.jpg'' ''image/jpeg'' 10485760" plain_env "''id1''" "\<lparr>table = [], objects = []\<rparr>"]
  note at_one = upload_validation_boundaries
      [of "photo_upload_body ''a.jpg'' ''image/jpeg'' 1" plain_env "''id1''" "\<lparr>table = [], objects = []\<rparr>"]
  have signing: "presigned_post_fault plain_env = None"
    by (simp add: plain_env_def)
  have zero: "\<forall>r. new_UploadPresignedUrlRequest (photo_upload_body ''a.jpg'' ''image/jpeg'' 0) \<noteq> Inr r"
    using at_zero [THEN conjunct1] by (simp add: photo_upload_body_def)
  have over: "\<forall>r. new_UploadPresignedUrlRequest (photo_upload_body ''a.jpg'' ''image/jpeg'' 10485761) \<noteq> Inr r"
    using at_over [THEN conjunct1] by (simp add: photo_upload_body_def)
  have svg: "\<forall>r. new_UploadPresignedUrlRequest (photo_upload_body ''a.svg'' ''image/svg+xml'' 2048) \<noteq> Inr r"
    using at_svg [THEN conjunct1] by (simp add: photo_upload_body_def)
  have top: "\<exists>r. new_UploadPresignedUrlRequest (photo_upload_body ''a.jpg'' ''image/jpeg'' 10485760) = Inr r"
    using at_top [THEN conjunct1] by (simp add: photo_upload_body_def)
  have one: "\<exists>r. new_UploadPresignedUrlRequest (photo_upload_body ''a.jpg'' ''image/jpeg'' 1) = Inr r"
    using at_one [THEN conjunct1] by (simp add: photo_upload_body_def)
  have top200: "statusCode (fst (upload_presigned_url_handler plain_env ''id1''
         (Inr (photo_upload_body ''a.jpg'' ''image/jpeg'' 10485760)) \<lparr>table = [], objects = []\<rparr>)) = 200"
    using top at_top [THEN conjunct2, THEN conjunct2] by (auto simp: signing)
  have one200: "statusCode (fst (upload_presigned_url_handler plain_env ''id1''
         (Inr (photo_upload_body ''a.jpg'' ''image/jpeg'' 1)) \<lparr>table = [], objects = []\<rparr>)) = 200"
    using one at_one [THEN conjunct2, THEN conjunct2] by (auto simp: signing)
  show ?thesis
    using zero over svg top one top200 one200
      at_zero [THEN conjunct2, THEN conjunct1]
      at_over [THEN conjunct2, THEN conjunct1]
      at_svg [THEN conjunct2, THEN conjunct1]
    by blast
qed

subsection \<open>The two-phase upload\<close>

text \<open>
  Claim C2, as stated: whenever an object exists at the key derived by the complete-upload
  flow, a record with status completed is persisted. It fails for an object whose content
  type, as the store reports it, is not on the list of image types: the flow prefers the
  store's report over the request, the constructor of \<open>ImageMetadata\<close> rejects it, the answer is
  InternalError and the table stays empty.
\<close>

theorem complete_present_object_counterexample:
  "new_CompleteUploadRequest (photo_complete_body ''a.jpg'') = Inr (photo_complete_request ''a.jpg'')
   \<and> map_of (objects (bucket_with ''images/u1/id1_a.jpg'' ''application/pdf''))
        (complete_s3_key (photo_complete_request ''a.jpg''))
      = Some \<lparr>ContentType = ''application/pdf'', ContentLength = 2048\<rparr>
   \<and> complete_upload_handler plain_env ''2026-02-13T10:00:00'' ''2026-02-13T10:00:01''
        (Inr (photo_complete_body ''a.jpg'')) (bucket_with ''images/u1/id1_a.jpg'' ''application/pdf'')
      = (internal_error_response
           (''Failed to complete upload: 1 validation error for ImageMetadata'' @ [CHR 0x0A]
            @ ''content_type'' @ [CHR 0x0A]
            @ ''  Content type must be one of ['image/jpeg', 'image/png', 'image/gif', 'image/webp', 'image/bmp'] (type=value_error)''),
         bucket_with ''images/u1/id1_a.jpg'' ''application/pdf'')
   \<and> table (bucket_with ''images/u1/id1_a.jpg'' ''application/pdf'') = []"
  by (simp add: request_a key_a bucket_with_def complete_upload_handler_def
      check_object_exists_def get_object_metadata_def head_object_def plain_env_faults
      new_ImageMetadata_def validate_content_type_def validation_error_def complete_failed_def
      content_type_refused_def display_error_def str_nat_1 Let_def)

text \<open>
  Claim C2, amended. Issuing a credential leaves both backends as they were, so no record is
  persisted. For a valid complete-upload request, with the object store and the table
  answering: when no object exists at the derived key, the answer is NotFound and nothing is
  persisted; when an object exists whose reported content type is one of the image types and
  whose reported size is positive, the answer is success and the record of that image
  identifier, with status completed, is put into the table; when the object's reported type or
  size is not valid, the answer is InternalError and nothing is persisted.
\<close>

theorem upload_then_complete:
  assumes "new_CompleteUploadRequest b = Inr r"
    and "head_object_fault e = None" and "put_item_fault e = None"
  shows "snd (upload_presigned_url_handler e uuid4 event_body w) = w
     \<and> complete_upload_handler e ts now (Inr b) w =
        (case map_of (objects w) (complete_s3_key r) of
           None \<Rightarrow>
             (not_found_response ''Image not uploaded to S3. Please upload the file first.'', w)
         | Some obj \<Rightarrow>
             if validate_content_type (ContentType obj) \<and> ContentLength obj > 0
             then (success_response
                     (CompleteUploadResponse (cr_image_id r) ''completed''
                        ''Image upload completed successfully'') 200,
                   w\<lparr>table := AList.update (cr_image_id r)
                                 (item_of_metadata (completed_metadata r obj ts) now) (table w)\<rparr>)
             else (complete_failed
                     (validation_error ''ImageMetadata''
                        ((if validate_content_type (ContentType obj) then [] else [content_type_refused])
                         @ (if ContentLength obj > 0 then [] else [not_greater_than_0 ''file_size'']))), w))
     \<and> map_of (item_of_metadata (completed_metadata r obj' ts) now) ''status''
         = Some (S ''completed'')
     \<and> map_of (item_of_metadata (completed_metadata r obj' ts) now) ''image_id''
         = Some (S (cr_image_id r))"
proof (intro conjI)
  show "snd (upload_presigned_url_handler e uuid4 event_body w) = w"
    by (rule upload_keeps_backend)
  show "complete_upload_handler e ts now (Inr b) w =
        (case map_of (objects w) (complete_s3_key r) of
           None \<Rightarrow>
             (not_found_response ''Image not uploaded to S3. Please upload the file first.'', w)
         | Some obj \<Rightarrow>
             if validate_content_type (ContentType obj) \<and> ContentLength obj > 0
             then (success_response
                     (CompleteUploadResponse (cr_image_id r) ''completed''
                        ''Image upload completed successfully'') 200,
                   w\<lparr>table := AList.update (cr_image_id r)
                                 (item_of_metadata (completed_metadata r obj ts) now) (table w)\<rparr>)
             else (complete_failed
                     (validation_error ''ImageMetadata''
                        ((if validate_content_type (ContentType obj) then [] else [content_type_refused])
                         @ (if ContentLength obj > 0 then [] else [not_greater_than_0 ''file_size'']))), w))"
  proof (cases "map_of (objects w) (complete_s3_key r)")
    case None
    then show ?thesis
      using assms
      by (simp add: complete_upload_handler_def check_object_exists_def head_object_plain)
  next
    case (Some obj)
    then show ?thesis
      using assms
      by (simp add: complete_upload_handler_def check_object_exists_def get_object_metadata_def
          head_object_plain new_ImageMetadata_def put_item_def completed_metadata_def Let_def)
  qed
  show "map_of (item_of_metadata (completed_metadata r obj' ts) now) ''status''
         = Some (S ''completed'')"
    by (simp add: item_of_metadata_def completed_metadata_def)
  show "map_of (item_of_metadata (completed_metadata r obj' ts) now) ''image_id''
         = Some (S (cr_image_id r))"
    by (simp add: item_of_metadata_def completed_metadata_def)
qed

theorem upload_then_complete_witness:
  "complete_upload_handler plain_env ''2026-02-13T10:00:00'' ''2026-02-13T10:00:01''
      (Inr (photo_complete_body ''a.jpg'')) \<lparr>table = [], objects = []\<rparr>
    = (not_found_response ''Image not uploaded to S3. Please upload the file first.'',
       \<lparr>table = [], objects = []\<rparr>)
   \<and> complete_upload_handler plain_env ''2026-02-13T10:00:00'' ''2026-02-13T10:00:01''
        (Inr (photo_complete_body ''a.jpg'')) (bucket_with ''images/u1/id1_a.jpg'' ''image/jpeg'')
    = (success_response
         (CompleteUploadResponse ''id1'' ''completed'' ''Image upload completed successfully'') 200,
       \<lparr>table = [(''id1'',
                   item_of_metadata
                     (completed_metadata (photo_complete_request ''a.jpg'')
                        \<lparr>ContentType = ''image/jpeg'', ContentLength = 2048\<rparr>
                        ''2026-02-13T10:00:00'')
                     ''2026-02-13T10:00:01'')],
         objects = [(''images/u1/id1_a.jpg'',
                     \<lparr>ContentType = ''image/jpeg'', ContentLength = 2048\<rparr>)]\<rparr>)"
proof -
  note t = upload_then_complete [OF request_a plain_env_faults(1) plain_env_faults(2)]
  note absent = t [of "''id1''" "Inr (photo_upload_body ''a.jpg'' ''image/jpeg'' 2048)"
      "\<lparr>table = [], objects = []\<rparr>" "''2026-02-13T10:00:00''" "''2026-02-13T10:00:01''",
      THEN conjunct2, THEN conjunct1]
  note present = t [of "''id1''" "Inr (photo_upload_body ''a.jpg'' ''image/jpeg'' 2048)"
      "bucket_with ''images/u1/id1_a.jpg'' ''image/jpeg''"
      "''2026-02-13T10:00:00''" "''2026-02-13T10:00:01''", THEN conjunct2, THEN conjunct1]
  have id: "cr_image_id (photo_complete_request ''a.jpg'') = ''id1''"
    by (simp add: photo_complete_request_def)
  show ?thesis
    unfolding absent present
    by (simp add: key_a id bucket_with_def validate_jpeg)
qed

subsection \<open>Deletion\<close>

text \<open>
  Claim C6. For a delete request with a non-empty image identifier and a non-empty caller
  identity, whose record the table returns: if the record's owner differs from the caller, the
  answer is Unauthorized (401) and neither the table nor the bucket changes; if the caller is
  the owner, the deletion in the object store is attempted and its failure is dropped, and then
  the record is deleted from the table without any condition and success is returned (the
  object stays in the bucket when the store refused). Only a failure of the table's own delete
  call is reported, as InternalError.
\<close>

theorem delete_authorization:
  assumes "iid \<noteq> []" and "uid \<noteq> []" and "get_item e w iid = Inr (Some m)"
  shows "delete_image_handler e (Some iid) (Inr (Some uid)) w =
           (if user_id m \<noteq> uid
            then (unauthorized_response ''You don't have permission to delete this image'', w)
            else
              (case delete_item_fault e of
                 None \<Rightarrow>
                   (success_response
                      (DeleteImageResponse iid ''deleted'' ''Image deleted successfully'') 200,
                    w\<lparr>table := AList.delete iid (table w),
                      objects := (case delete_object_fault e of
                                    None \<Rightarrow> AList.delete (s3_key m) (objects w)
                                  | Some x \<Rightarrow> objects w)\<rparr>)
               | Some x \<Rightarrow> (delete_failed x, snd (delete_object e w (s3_key m)))))
       \<and> statusCode (unauthorized_response ''You don't have permission to delete this image'') = 401
       \<and> map_of (AList.delete iid (table w)) iid = None"
proof (intro conjI)
  show "delete_image_handler e (Some iid) (Inr (Some uid)) w =
           (if user_id m \<noteq> uid
            then (unauthorized_response ''You don't have permission to delete this image'', w)
            else
              (case delete_item_fault e of
                 None \<Rightarrow>
                   (success_response
                      (DeleteImageResponse iid ''deleted'' ''Image deleted successfully'') 200,
                    w\<lparr>table := AList.delete iid (table w),
                      objects := (case delete_object_fault e of
                                    None \<Rightarrow> AList.delete (s3_key m) (objects w)
                                  | Some x \<Rightarrow> objects w)\<rparr>)
               | Some x \<Rightarrow> (delete_failed x, snd (delete_object e w (s3_key m)))))"
    using assms
    by (cases "delete_item_fault e"; cases "delete_object_fault e")
       (simp_all add: delete_image_handler_def falsy_def delete_object_def delete_item_def)
  show "statusCode (unauthorized_response ''You don't have permission to delete this image'') = 401"
    by (simp add: unauthorized_response_def error_response_def create_response_def)
  show "map_of (AList.delete iid (table w)) iid = None"
    by (rule map_of_delete_self)
qed

theorem delete_authorization_witness:
  "delete_image_handler store_denied_env (Some ''id1'') (Inr (Some ''malicious-user'')) beach_backend
     = (unauthorized_response ''You don't have permission to delete this image'', beach_backend)
   \<and> delete_image_handler store_denied_env (Some ''id1'') (Inr (Some ''owner-user'')) beach_backend
     = (success_response (DeleteImageResponse ''id1'' ''deleted'' ''Image deleted successfully'') 200,
        \<lparr>table = [],
          objects = [(''images/owner-user/id1_beach.jpg'',
                      \<lparr>ContentType = ''image/jpeg'', ContentLength = 2048\<rparr>)]\<rparr>)"
proof -
  have g: "get_item store_denied_env beach_backend ''id1'' = Inr (Some beach_metadata)"
    by (simp add: get_item_beach store_denied_env_faults)
  have n1: "''id1'' \<noteq> []" and n2: "''malicious-user'' \<noteq> []" and n3: "''owner-user'' \<noteq> []"
    by simp_all
  note other = delete_authorization [OF n1 n2 g, THEN conjunct1]
  note owner = delete_authorization [OF n1 n3 g, THEN conjunct1]
  show ?thesis
    unfolding other owner
    by (simp add: store_denied_env_faults beach_metadata_def beach_backend_def)
qed

subsection \<open>Status update of a missing record\<close>

text \<open>
  Claim C7, as stated: updating the status of an image identifier that has no record leaves
  the table unchanged. The update is sent without a condition expression, so the table adds a
  new item: on the empty table, the update for \<^verbatim>\<open>ghost\<close> reports success and leaves a table
  with one item.
\<close>

theorem update_status_absent_counterexample:
  "map_of (table \<lparr>table = [], objects = []\<rparr>) ''ghost'' = None
   \<and> update_status plain_env ''2026-02-13T10:00:00'' \<lparr>table = [], objects = []\<rparr> ''ghost'' ''failed''
     = (Inr True,
        \<lparr>table = [(''ghost'', [(''image_id'', S ''ghost''), (''status'', S ''failed''),
                                 (''updated_at'', S ''2026-02-13T10:00:00'')])],
          objects = []\<rparr>)"
  by (simp add: update_status_def table_update_item_def plain_env_faults)

text \<open>
  Claim C7, amended. For an image identifier without a record, and the table answering, the
  status update reports success and adds one item to the table, holding only the key, the
  status and \<open>updated_at\<close>; every other item is left as it was.
\<close>

theorem update_status_absent_creates_item:
  assumes "update_item_fault e = None" and "map_of (table w) iid = None"
  shows "update_status e now w iid st =
           (Inr True,
            w\<lparr>table := table w @ [(iid, [(''image_id'', S iid), (''status'', S st),
                                           (''updated_at'', S now)])]\<rparr>)"
proof -
  have "iid \<notin> fst ` set (table w)"
    using assms(2) by (simp add: map_of_absent)
  then show ?thesis
    using assms by (simp add: update_status_def table_update_item_def update_absent)
qed

theorem update_status_absent_creates_item_witness:
  "update_status plain_env ''2026-02-14T09:00:00'' beach_backend ''ghost'' ''failed''
     = (Inr True,
        beach_backend\<lparr>table := table beach_backend
                          @ [(''ghost'', [(''image_id'', S ''ghost''), (''status'', S ''failed''),
                                          (''updated_at'', S ''2026-02-14T09:00:00'')])]\<rparr>)"
proof -
  have absent: "map_of (table beach_backend) ''ghost'' = None"
    by (simp add: beach_backend_def)
  show ?thesis
    by (rule update_status_absent_creates_item [OF plain_env_faults(5) absent])
qed

subsection \<open>The query by owner\<close>

text \<open>
  Claim C5. Whenever \<open>query_by_user\<close> returns a page for an owner, every record of the page is
  the record of an item of the table that belongs to that owner, and its upload timestamp is
  not below the start date when one is given and not above the end date when one is given. A
  bound is given when it is a string that is not empty; timestamps are compared as strings, as
  the table compares them. The page is in descending order of the upload timestamp and has at
  most \<open>limit\<close> records. When the query starts at the beginning of the partition and the table
  reports no continuation key, the page holds the record of every item of that owner within
  the bounds: with both bounds the closed interval, with one bound the half that is open at
  the other end, with no bound the whole partition.
\<close>

theorem query_by_user_range_and_order:
  assumes "query_by_user e w uid start_date end_date lim last_evaluated_key = Inr (images, next_key)"
  shows "list_all (\<lambda>m. user_id m = uid
                      \<and> (\<not> falsy start_date \<longrightarrow> the start_date \<le> upload_timestamp m)
                      \<and> (\<not> falsy end_date \<longrightarrow> upload_timestamp m \<le> the end_date)
                      \<and> (\<exists>iid it. map_of (table w) iid = Some it \<and> ImageMetadata_of_item it = Inr m))
           images
       \<and> sorted_wrt (\<lambda>a b. upload_timestamp b \<le> upload_timestamp a) images
       \<and> int (length images) \<le> lim
       \<and> (\<not> truthy last_evaluated_key \<and> next_key = None \<longrightarrow>
            (\<forall>iid it t. map_of (table w) iid = Some it \<and> item_str it ''user_id'' = Some uid
                \<and> item_str it ''upload_timestamp'' = Some t
                \<and> (\<not> falsy start_date \<longrightarrow> the start_date \<le> t)
                \<and> (\<not> falsy end_date \<longrightarrow> t \<le> the end_date)
              \<longrightarrow> (\<exists>m \<in> set images. ImageMetadata_of_item it = Inr m)))"
proof -
  define cond where "cond = key_condition_of start_date end_date"
  define esk where "esk = (if truthy last_evaluated_key then Some last_evaluated_key else None)"
  from assms obtain its where
    q: "table_query e w uid cond lim esk = Inr (its, next_key)"
    and ims: "images_of_items its = Inr images"
    by (auto simp: query_by_user_def cond_def esk_def split: sum.splits prod.splits)
  from table_query_page [OF q] obtain page where
    its: "its = map snd page"
    and sub: "set page \<subseteq> {p \<in> set (index_partition w uid). in_range cond (fst (fst p))}"
    and sorted: "sorted_wrt (\<lambda>a b. fst (fst b) \<le> fst (fst a)) page"
    and len: "length page \<le> nat lim"
    and full: "esk = None \<and> next_key = None \<longrightarrow>
                set page = {p \<in> set (index_partition w uid). in_range cond (fst (fst p))}"
    by blast
  have rel: "list_all2 (\<lambda>p m. ImageMetadata_of_item (snd p) = Inr m) page images"
    using images_of_items_Inr [OF ims] by (simp add: its list_all2_map1)
  have lim: "1 \<le> lim"
    using q by (auto simp: table_query_def split: option.splits if_splits)
  have each: "user_id m = uid \<and> upload_timestamp m = fst (fst p) \<and> in_range cond (fst (fst p))
              \<and> map_of (table w) (snd (fst p)) = Some (snd p)"
    if "p \<in> set page" and "ImageMetadata_of_item (snd p) = Inr m" for p m
  proof -
    obtain t iid it where p: "p = ((t, iid), it)"
      by (cases p) auto
    from that(1) sub have "((t, iid), it) \<in> set (index_partition w uid)" and "in_range cond t"
      by (auto simp: p)
    then show ?thesis
      using ImageMetadata_of_item_keys [OF that(2)]
      by (simp add: p index_partition_member rows_member)
  qed
  have times: "map upload_timestamp images = map (\<lambda>p. fst (fst p)) page"
    using rel each
    by (induction page images rule: list_all2_induct) auto
  have members: "\<exists>p \<in> set page. ImageMetadata_of_item (snd p) = Inr m" if "m \<in> set images" for m
    using rel that by (induction page images rule: list_all2_induct) auto
  have covered: "\<exists>m \<in> set images. ImageMetadata_of_item (snd p) = Inr m" if "p \<in> set page" for p
    using rel that by (induction page images rule: list_all2_induct) auto
  show ?thesis
  proof (intro conjI impI allI)
    show "list_all (\<lambda>m. user_id m = uid
                      \<and> (\<not> falsy start_date \<longrightarrow> the start_date \<le> upload_timestamp m)
                      \<and> (\<not> falsy end_date \<longrightarrow> upload_timestamp m \<le> the end_date)
                      \<and> (\<exists>iid it. map_of (table w) iid = Some it \<and> ImageMetadata_of_item it = Inr m))
           images"
      unfolding list_all_iff
    proof
      fix m assume "m \<in> set images"
      from members [OF this] obtain p where p: "p \<in> set page" "ImageMetadata_of_item (snd p) = Inr m"
        by blast
      from each [OF p] p(2) show "user_id m = uid
                      \<and> (\<not> falsy start_date \<longrightarrow> the start_date \<le> upload_timestamp m)
                      \<and> (\<not> falsy end_date \<longrightarrow> upload_timestamp m \<le> the end_date)
                      \<and> (\<exists>iid it. map_of (table w) iid = Some it \<and> ImageMetadata_of_item it = Inr m)"
        by (auto simp: cond_def in_range_key_condition_of)
    qed
    have "sorted_wrt (\<lambda>a b. b \<le> a) (map (\<lambda>p. fst (fst p)) page)"
      using sorted by (simp add: sorted_wrt_map)
    then show "sorted_wrt (\<lambda>a b. upload_timestamp b \<le> upload_timestamp a) images"
      by (simp add: times [symmetric] sorted_wrt_map)
    have "length images = length page"
      using rel by (rule list_all2_lengthD [symmetric])
    then show "int (length images) \<le> lim"
      using len lim by simp
  next
    fix iid it t
    assume first: "\<not> truthy last_evaluated_key \<and> next_key = None"
      and row: "map_of (table w) iid = Some it \<and> item_str it ''user_id'' = Some uid
                \<and> item_str it ''upload_timestamp'' = Some t
                \<and> (\<not> falsy start_date \<longrightarrow> the start_date \<le> t)
                \<and> (\<not> falsy end_date \<longrightarrow> t \<le> the end_date)"
    from row have "((t, iid), it) \<in> set (index_partition w uid)" and "in_range cond t"
      by (simp_all add: index_partition_member rows_member cond_def in_range_key_condition_of)
    moreover from first full
    have "set page = {p \<in> set (index_partition w uid). in_range cond (fst (fst p))}"
      by (simp add: esk_def)
    ultimately have "((t, iid), it) \<in> set page"
      by simp
    from covered [OF this] show "\<exists>m \<in> set images. ImageMetadata_of_item it = Inr m"
      by simp
  qed
qed

text \<open>
  Of the three pictures of \<open>u1\<close>, taken on the 10th, 11th and 12th, the query from the 11th to
  the 12th returns the last two, the later one first, and not the picture of \<open>u2\<close>.
\<close>

theorem query_by_user_range_and_order_witness:
  "query_by_user plain_env album ''u1'' (Some ''2026-01-11'') (Some ''2026-01-12'') 50 JNull
     = Inr ([photo_of ''p3'' ''u1'' ''2026-01-12'', photo_of ''p2'' ''u1'' ''2026-01-11''], None)
   \<and> list_all (\<lambda>m. user_id m = ''u1'' \<and> ''2026-01-11'' \<le> upload_timestamp m
                    \<and> upload_timestamp m \<le> ''2026-01-12'')
        [photo_of ''p3'' ''u1'' ''2026-01-12'', photo_of ''p2'' ''u1'' ''2026-01-11'']
   \<and> sorted_wrt (\<lambda>a b. upload_timestamp b \<le> upload_timestamp a)
        [photo_of ''p3'' ''u1'' ''2026-01-12'', photo_of ''p2'' ''u1'' ''2026-01-11'']"
proof -
  note t = query_by_user_range_and_order [OF album_query]
  have "list_all (\<lambda>m. user_id m = ''u1'' \<and> ''2026-01-11'' \<le> upload_timestamp m
                    \<and> upload_timestamp m \<le> ''2026-01-12'')
        [photo_of ''p3'' ''u1'' ''2026-01-12'', photo_of ''p2'' ''u1'' ''2026-01-11'']"
    using t [THEN conjunct1] by (simp add: falsy_def)
  moreover note t [THEN conjunct2, THEN conjunct1]
  ultimately show ?thesis
    using album_query by blast
qed

subsection \<open>Listing without an owner\<close>

text \<open>
  Claim C10. For a list request without a \<open>user_id\<close> (absent or empty), the answer and the
  state do not depend on the date bounds: two runs over the same table whose requests differ
  only in \<open>start_date\<close> and \<open>end_date\<close>, each of them absent or accepted by the validator of the
  dates, return the same response, hence the same images, count, next token and \<open>has_more\<close>.
\<close>

theorem list_without_owner_ignores_dates:
  assumes "falsy (q_user_id qp)"
    and "validate_date e start1" and "validate_date e end1"
    and "validate_date e start2" and "validate_date e end2"
  shows "list_images_handler e (qp\<lparr>q_start_date := start1, q_end_date := end1\<rparr>) w
       = list_images_handler e (qp\<lparr>q_start_date := start2, q_end_date := end2\<rparr>) w"
proof -
  note first = list_images_handler_scan
    [where qp = "qp\<lparr>q_start_date := start1, q_end_date := end1\<rparr>" and e = e and w = w
       and l = "limit_of qp" and t = "q_next_token qp"]
  note second = list_images_handler_scan
    [where qp = "qp\<lparr>q_start_date := start2, q_end_date := end2\<rparr>" and e = e and w = w
       and l = "limit_of qp" and t = "q_next_token qp"]
  show ?thesis
    using first second assms by (simp add: limit_of_def)
qed

text \<open>
  Over the four pictures, the request with the bounds from the 11th to the 12th and the
  request without bounds both return all four.
\<close>

theorem list_without_owner_ignores_dates_witness:
  "list_images_handler plain_env
       (list_query_of None (Some ''2026-01-11'') (Some ''2026-01-12'') None) album
     = list_images_handler plain_env (list_query_of None None None None) album
   \<and> list_images_handler plain_env (list_query_of None None None None) album
     = (success_response
          (ListImagesResponse
             [photo_of ''p1'' ''u1'' ''2026-01-10'', photo_of ''p2'' ''u1'' ''2026-01-11'',
              photo_of ''p3'' ''u1'' ''2026-01-12'', photo_of ''q1'' ''u2'' ''2026-01-11'']
             4 None False) 200, album)"
proof -
  have none: "falsy (q_user_id (list_query_of None None None None))"
    by (simp add: list_query_of_def falsy_def)
  note t = list_without_owner_ignores_dates
    [OF none album_dates(1) album_dates(2) album_dates(3) album_dates(3), of album]
  have "list_images_handler plain_env
       (list_query_of None (Some ''2026-01-11'') (Some ''2026-01-12'') None) album
     = list_images_handler plain_env (list_query_of None None None None) album"
    using t by (simp add: list_query_of_def)
  then show ?thesis
    using album_scan by (rule conjI)
qed

subsection \<open>The pagination token\<close>

text \<open>
  Claim C3. For every key \<open>k\<close>, a dictionary from attribute names to strings, decoding the
  encoded token gives \<open>k\<close> back. And for every list request that passes validation, whose token
  (if any) decodes, and for which the table answers with a page and with a continuation key
  \<open>next_key\<close> or none: the response is success with that page; its \<open>next_token\<close> is the
  encoding of \<open>next_key\<close> when the table reported one and is absent otherwise; \<open>has_more\<close> is
  true exactly when the table reported one; and the token decodes to the reported key.
\<close>

theorem cursor_round_trip:
  assumes "limit_of qp = Inr lim"
    and "new_ListImagesRequest e (q_user_id qp) (q_start_date qp) (q_end_date qp) lim
           (q_next_token qp) = Inr request"
    and "decode_pagination_token request = Some last_evaluated_key"
    and "query_based_on_filters e w request last_evaluated_key = Inr (images, next_key)"
  shows "list_images_handler e qp w =
           (success_response
              (ListImagesResponse images (length images) (map_option encode_token next_key)
                 (next_key \<noteq> None)) 200, w)
       \<and> (\<forall>k. next_key = Some k \<longrightarrow> decode_token (encode_token k) = Some (json_of_key k))
       \<and> (\<forall>k. distinct (map fst k) \<longrightarrow> decode_token (encode_token k) = Some (json_of_key k))"
proof (intro conjI allI impI)
  have "encode_next_token next_key = map_option encode_token next_key"
  proof (cases next_key)
    case None
    then show ?thesis
      by (simp add: encode_next_token_def)
  next
    case (Some k)
    with assms(4) have "k \<noteq> []"
      using query_based_on_filters_key by blast
    with Some show ?thesis
      by (simp add: encode_next_token_def)
  qed
  then show "list_images_handler e qp w =
           (success_response
              (ListImagesResponse images (length images) (map_option encode_token next_key)
                 (next_key \<noteq> None)) 200, w)"
    using assms by (simp add: list_images_handler_def)
next
  fix k assume "next_key = Some k"
  with assms(4) have "distinct (map fst k)"
    using query_based_on_filters_key by blast
  then show "decode_token (encode_token k) = Some (json_of_key k)"
    by (rule decode_token_encode_key)
next
  fix k :: "(string \<times> string) list"
  assume "distinct (map fst k)"
  then show "decode_token (encode_token k) = Some (json_of_key k)"
    by (rule decode_token_encode_key)
qed

text \<open>
  With pages of two, the first page of \<open>u1\<close> holds the pictures of the 12th and the 11th and a
  token; the token decodes to the key of the picture of the 11th; the request with that token
  returns the picture of the 10th and no token.
\<close>

theorem cursor_round_trip_witness:
  "list_images_handler plain_env (page_query (Some ''u1'') None) album
     = (success_response (ListImagesResponse [photo_of ''p3'' ''u1'' ''2026-01-12'', photo_of ''p2'' ''u1'' ''2026-01-11''] 2 (Some ''eyJpbWFnZV9pZCI6ICJwMiIsICJ1c2VyX2lkIjogInUxIiwgInVwbG9hZF90aW1lc3RhbXAiOiAiMjAyNi0wMS0xMSJ9'') True) 200, album)
   \<and> decode_token ''eyJpbWFnZV9pZCI6ICJwMiIsICJ1c2VyX2lkIjogInUxIiwgInVwbG9hZF90aW1lc3RhbXAiOiAiMjAyNi0wMS0xMSJ9'' = Some (json_of_key [(''image_id'', ''p2''), (''user_id'', ''u1''), (''upload_timestamp'', ''2026-01-11'')])
   \<and> list_images_handler plain_env (page_query (Some ''u1'') (Some ''eyJpbWFnZV9pZCI6ICJwMiIsICJ1c2VyX2lkIjogInUxIiwgInVwbG9hZF90aW1lc3RhbXAiOiAiMjAyNi0wMS0xMSJ9'')) album
     = (success_response (ListImagesResponse [photo_of ''p1'' ''u1'' ''2026-01-10''] 1 None False) 200, album)"
proof -
  note t = cursor_round_trip
    [OF album_first_page(1) album_first_page(2) album_first_page(3) album_first_page(4)]
  have "list_images_handler plain_env (page_query (Some ''u1'') None) album
     = (success_response (ListImagesResponse [photo_of ''p3'' ''u1'' ''2026-01-12'', photo_of ''p2'' ''u1'' ''2026-01-11''] 2 (Some ''eyJpbWFnZV9pZCI6ICJwMiIsICJ1c2VyX2lkIjogInUxIiwgInVwbG9hZF90aW1lc3RhbXAiOiAiMjAyNi0wMS0xMSJ9'') True) 200, album)"
    using t [THEN conjunct1] by (simp add: album_token numeral_2_eq_2)
  moreover have "decode_token ''eyJpbWFnZV9pZCI6ICJwMiIsICJ1c2VyX2lkIjogInUxIiwgInVwbG9hZF90aW1lc3RhbXAiOiAiMjAyNi0wMS0xMSJ9'' = Some (json_of_key [(''image_id'', ''p2''), (''user_id'', ''u1''), (''upload_timestamp'', ''2026-01-11'')])"
    using t [THEN conjunct2, THEN conjunct1] by (simp add: album_token)
  ultimately show ?thesis
    using album_second_page by blast
qed

subsection \<open>Tokens that are not keys\<close>

text \<open>
  Claim C4, which the handler does not meet. The token \<^verbatim>\<open>e30=\<close> is the encoding of the empty
  dictionary, which is not a key of the table: the handler takes the decoded value for no start
  key at all and answers 200 with the first page. The token \<^verbatim>\<open>eyJmb28iOiAiYmFyIn0=\<close> is the
  encoding of a dictionary with the one name \<^verbatim>\<open>foo\<close>: it decodes, the handler hands the
  dictionary to the table as \<open>ExclusiveStartKey\<close>, the table refuses it, and the exception
  reaches the outermost \<^verbatim>\<open>except\<close>, which answers InternalError (500), on the scan path and
  on the query path alike. Only a token that fails to decode, such as \<^verbatim>\<open>!!!\<close>, is answered
  with ValidationError (400).
\<close>

theorem invalid_token_not_rejected:
  "decode_token ''e30='' = Some (JObj [])
   \<and> list_images_handler plain_env (list_query_of None None None (Some ''e30='')) album
     = (success_response
          (ListImagesResponse
             [photo_of ''p1'' ''u1'' ''2026-01-10'', photo_of ''p2'' ''u1'' ''2026-01-11'',
              photo_of ''p3'' ''u1'' ''2026-01-12'', photo_of ''q1'' ''u2'' ''2026-01-11'']
             4 None False) 200, album)
   \<and> decode_token ''eyJmb28iOiAiYmFyIn0='' = Some (JObj [(''foo'', JStr ''bar'')])
   \<and> list_images_handler plain_env (list_query_of None None None (Some ''eyJmb28iOiAiYmFyIn0='')) album
     = (internal_error_response
          ''Failed to list images: An error occurred (ValidationException) when calling the Scan operation: The provided starting key is invalid'',
        album)
   \<and> list_images_handler plain_env
        (list_query_of (Some ''u1'') None None (Some ''eyJmb28iOiAiYmFyIn0='')) album
     = (internal_error_response
          ''Failed to list images: An error occurred (ValidationException) when calling the Query operation: The provided starting key is invalid'',
        album)
   \<and> statusCode (fst (list_images_handler plain_env
        (list_query_of None None None (Some ''eyJmb28iOiAiYmFyIn0='')) album)) = 500
   \<and> list_images_handler plain_env (list_query_of None None None (Some ''!!!'')) album
     = (validation_error_response ''Invalid pagination token'' None, album)"
  by code_simp

subsection \<open>The message of an internal error\<close>




end
